theory Spec2Isabelle
  imports Main
begin

section \<open>JavaScript strings and values\<close>

text \<open>
  A JavaScript string is a sequence of UTF-16 code units. The regular expressions of the
  source carry no \<^verbatim>\<open>u\<close> flag and \<^verbatim>\<open>===\<close> compares code units, so a string is
  modelled as the list of its code units. \<open>js\<close> embeds an ASCII literal.
\<close>

type_synonym jstring = "nat list"

definition js :: "string \<Rightarrow> jstring" where
  "js = map of_char"

text \<open>
  The characters matched by \<^verbatim>\<open>\s\<close> and removed by \<^verbatim>\<open>String.prototype.trim\<close>:
  ECMAScript's WhiteSpace and LineTerminator productions.
\<close>

definition isWhiteSpace :: "nat \<Rightarrow> bool" where
  "isWhiteSpace c \<longleftrightarrow>
     c \<in> {9, 10, 11, 12, 13, 32, 160, 5760, 8232, 8233, 8239, 8287, 12288, 65279}
     \<or> (8192 \<le> c \<and> c \<le> 8202)"

definition trim :: "jstring \<Rightarrow> jstring" where
  "trim s = rev (dropWhile isWhiteSpace (rev (dropWhile isWhiteSpace s)))"

text \<open>\<^verbatim>\<open>s.replace(/X+/g, r)\<close> for a character class \<open>X\<close>: every maximal run of
  characters of the class is replaced by \<open>r\<close>.\<close>

function replace_runs :: "(nat \<Rightarrow> bool) \<Rightarrow> jstring \<Rightarrow> jstring \<Rightarrow> jstring" where
  "replace_runs p r [] = []"
| "replace_runs p r (c # cs) =
     (if p c then r @ replace_runs p r (dropWhile p cs) else c # replace_runs p r cs)"
  by pat_completeness auto
termination
  by (relation "measure (\<lambda>(p, r, s). length s)")
     (auto simp: length_dropWhile_le less_Suc_eq_le)


section \<open>Tenant form: slug generation\<close>

text \<open>
  \<^verbatim>\<open>
  function generateSlug(name: string): string {
    return name
      .toLowerCase()
      .replace(/[^a-z0-9\s-]/g, "")
      .replace(/\s+/g, "-")
      .replace(/-+/g, "-")
      .trim();
  }
  \<close>
  \<^verbatim>\<open>String.prototype.toLowerCase\<close> applies the Unicode case mapping; its table is not
  part of the program and is taken as the parameter \<open>toLowerCase\<close>. \<open>[a-z0-9]\<close> is
  \<open>isSlugLetter\<close>, the hyphen is code unit 45.
\<close>

definition isSlugLetter :: "nat \<Rightarrow> bool" where
  "isSlugLetter c \<longleftrightarrow> (97 \<le> c \<and> c \<le> 122) \<or> (48 \<le> c \<and> c \<le> 57)"

definition isHyphen :: "nat \<Rightarrow> bool" where
  "isHyphen c \<longleftrightarrow> c = 45"

definition generateSlug :: "(jstring \<Rightarrow> jstring) \<Rightarrow> jstring \<Rightarrow> jstring" where
  "generateSlug toLowerCase name =
     trim (replace_runs isHyphen [45]
       (replace_runs isWhiteSpace [45]
         (filter (\<lambda>c. isSlugLetter c \<or> isWhiteSpace c \<or> isHyphen c)
           (toLowerCase name))))"

text \<open>The case mapping restricted to ASCII, an instance of the parameter.\<close>

definition asciiLower :: "jstring \<Rightarrow> jstring" where
  "asciiLower = map (\<lambda>c. if 65 \<le> c \<and> c \<le> 90 then c + 32 else c)"

text \<open>The two properties of a slug: its alphabet, and no hyphen next to a hyphen.\<close>

definition slug_chars :: "jstring \<Rightarrow> bool" where
  "slug_chars s \<longleftrightarrow> list_all (\<lambda>c. isSlugLetter c \<or> isHyphen c) s"

fun no_double_hyphen :: "jstring \<Rightarrow> bool" where
  "no_double_hyphen (x # y # zs) \<longleftrightarrow>
     \<not> (isHyphen x \<and> isHyphen y) \<and> no_double_hyphen (y # zs)"
| "no_double_hyphen _ \<longleftrightarrow> True"


text \<open>What the three replacements leave, before the final trim.\<close>

definition slug_body :: "(jstring \<Rightarrow> jstring) \<Rightarrow> jstring \<Rightarrow> jstring" where
  "slug_body toLowerCase name =
     replace_runs isHyphen [45]
       (replace_runs isWhiteSpace [45]
         (filter (\<lambda>c. isSlugLetter c \<or> isWhiteSpace c \<or> isHyphen c)
           (toLowerCase name)))"


section \<open>JavaScript values\<close>

text \<open>
  The values that cross the program's untyped boundaries (\<^verbatim>\<open>unknown\<close>, \<^verbatim>\<open>any\<close>): query
  parameters, mutation payloads, caught errors, parsed JSON. \<open>JError\<close> is an object whose
  prototype chain holds \<^verbatim>\<open>Error.prototype\<close>. A number is given by an integer; the
  program only tests numbers for truthiness.
\<close>

datatype jsvalue =
    JUndefined
  | JNull
  | JBool bool
  | JNum int
  | JStr jstring
  | JArr "jsvalue list"
  | JObj "(string \<times> jsvalue) list"
  | JError "(string \<times> jsvalue) list"

fun truthy :: "jsvalue \<Rightarrow> bool" where
  "truthy JUndefined = False"
| "truthy JNull = False"
| "truthy (JBool b) = b"
| "truthy (JNum n) = (n \<noteq> 0)"
| "truthy (JStr s) = (s \<noteq> [])"
| "truthy (JArr _) = True"
| "truthy (JObj _) = True"
| "truthy (JError _) = True"

fun isString :: "jsvalue \<Rightarrow> bool" where
  "isString (JStr _) = True"
| "isString _ = False"

fun instanceofError :: "jsvalue \<Rightarrow> bool" where
  "instanceofError (JError _) = True"
| "instanceofError _ = False"

text \<open>
  The property read \<^verbatim>\<open>v?.k\<close>, for the names this program reads (\<^verbatim>\<open>message\<close>,
  \<^verbatim>\<open>detail\<close>, \<^verbatim>\<open>moduleId\<close>, \<^verbatim>\<open>tenantId\<close>): an own property wins, an Error without
  an own \<^verbatim>\<open>message\<close> inherits the empty string of \<^verbatim>\<open>Error.prototype.message\<close>, every
  other read gives \<^verbatim>\<open>undefined\<close>.
\<close>

fun get_prop :: "jsvalue \<Rightarrow> string \<Rightarrow> jsvalue" where
  "get_prop (JObj ps) k = (case map_of ps k of Some v \<Rightarrow> v | None \<Rightarrow> JUndefined)"
| "get_prop (JError ps) k =
     (case map_of ps k of
        Some v \<Rightarrow> v
      | None \<Rightarrow> if k = ''message'' then JStr [] else JUndefined)"
| "get_prop _ k = JUndefined"


section \<open>Data-access layer: query keys and the query cache\<close>

text \<open>A call of the REST client, \<^verbatim>\<open>api.<resource>.<operation>(<args>)\<close>.\<close>

datatype api_call = ApiCall (resource: string) (operation: string) (args: "jsvalue list")

text \<open>The options a hook hands to \<^verbatim>\<open>useQuery\<close>.\<close>

datatype query_options =
  QueryOptions (queryKey: "jsvalue list") (queryFn: api_call) (enabled: bool)

definition useTenants :: "jsvalue \<Rightarrow> query_options" where
  "useTenants params =
     QueryOptions [JStr (js ''tenants''), params] (ApiCall ''tenants'' ''list'' [params]) True"

definition useTenant :: "jstring \<Rightarrow> query_options" where
  "useTenant ident =
     QueryOptions [JStr (js ''tenants''), JStr ident] (ApiCall ''tenants'' ''get'' [JStr ident])
       (ident \<noteq> [])"

definition useUsers :: "jsvalue \<Rightarrow> query_options" where
  "useUsers params =
     QueryOptions [JStr (js ''users''), params] (ApiCall ''users'' ''list'' [params]) True"

definition useUser :: "jstring \<Rightarrow> query_options" where
  "useUser ident =
     QueryOptions [JStr (js ''users''), JStr ident] (ApiCall ''users'' ''get'' [JStr ident])
       (ident \<noteq> [])"

definition useCurrentUser :: query_options where
  "useCurrentUser =
     QueryOptions [JStr (js ''users''), JStr (js ''me'')] (ApiCall ''users'' ''me'' []) True"

definition useRoles :: query_options where
  "useRoles = QueryOptions [JStr (js ''roles'')] (ApiCall ''roles'' ''list'' []) True"

definition useClients :: "jsvalue \<Rightarrow> query_options" where
  "useClients params =
     QueryOptions [JStr (js ''clients''), params] (ApiCall ''clients'' ''list'' [params]) True"

definition useClient :: "jstring \<Rightarrow> bool option \<Rightarrow> query_options" where
  "useClient ident options_enabled =
     QueryOptions [JStr (js ''clients''), JStr ident] (ApiCall ''clients'' ''get'' [JStr ident])
       (case options_enabled of Some e \<Rightarrow> e | None \<Rightarrow> ident \<noteq> [])"

definition useClientAccounts :: "jstring \<Rightarrow> query_options" where
  "useClientAccounts ident =
     QueryOptions [JStr (js ''clients''), JStr ident, JStr (js ''accounts'')]
       (ApiCall ''clients'' ''accounts'' [JStr ident]) (ident \<noteq> [])"

definition useClientDocuments :: "jstring \<Rightarrow> query_options" where
  "useClientDocuments ident =
     QueryOptions [JStr (js ''clients''), JStr ident, JStr (js ''documents'')]
       (ApiCall ''clients'' ''documents'' [JStr ident]) (ident \<noteq> [])"

definition useModules :: query_options where
  "useModules = QueryOptions [JStr (js ''modules'')] (ApiCall ''modules'' ''list'' []) True"

definition useAuditLogs :: "jsvalue \<Rightarrow> query_options" where
  "useAuditLogs params =
     QueryOptions [JStr (js ''audit''), params] (ApiCall ''audit'' ''list'' [params]) True"

definition useDashboardStats :: query_options where
  "useDashboardStats =
     QueryOptions [JStr (js ''stats''), JStr (js ''dashboard'')]
       (ApiCall ''stats'' ''dashboard'' []) True"

definition useTenantStats :: query_options where
  "useTenantStats =
     QueryOptions [JStr (js ''stats''), JStr (js ''tenant'')] (ApiCall ''stats'' ''tenant'' []) True"

definition useSystemHealth :: query_options where
  "useSystemHealth =
     QueryOptions [JStr (js ''stats''), JStr (js ''health'')] (ApiCall ''stats'' ''health'' []) True"

text \<open>The query that the tenant branding page declares itself, beside the hooks:
  \<^verbatim>\<open>useQuery<Tenant>({ queryKey: ["tenant", tenantId],
      queryFn: () => api.tenants.get(tenantId), enabled: !!tenantId })\<close>.\<close>

definition TenantBrandingPage_query :: "jstring \<Rightarrow> query_options" where
  "TenantBrandingPage_query tenantId =
     QueryOptions [JStr (js ''tenant''), JStr tenantId]
       (ApiCall ''tenants'' ''get'' [JStr tenantId]) (tenantId \<noteq> [])"

text \<open>
  The query cache holds, for each query key, whether the entry is invalidated.
  \<^verbatim>\<open>queryClient.invalidateQueries({ queryKey })\<close> marks every entry whose key the filter
  key partially matches; every filter key of this program is an array of strings, for
  which the match is: the filter is a prefix of the entry's key, component by component
  under \<^verbatim>\<open>===\<close>.
\<close>

type_synonym cache = "(jsvalue list \<times> bool) list"

fun partialMatchKey :: "jsvalue list \<Rightarrow> jstring list \<Rightarrow> bool" where
  "partialMatchKey a [] = True"
| "partialMatchKey [] (b # bs) = False"
| "partialMatchKey (a # as) (b # bs) = (a = JStr b \<and> partialMatchKey as bs)"

definition invalidateQueries :: "jstring list \<Rightarrow> cache \<Rightarrow> cache" where
  "invalidateQueries filterKey c =
     map (\<lambda>(k, inv). (k, inv \<or> partialMatchKey k filterKey)) c"


section \<open>Data-access layer: mutation bindings\<close>

text \<open>
  The options a hook hands to \<^verbatim>\<open>useMutation\<close>. Every callback of this program does
  nothing but call \<^verbatim>\<open>queryClient.invalidateQueries\<close>, so a callback is the list of the
  filter keys it invalidates, in the order of its statements; \<open>None\<close> is a callback
  that the hook does not declare.
\<close>

type_synonym callback = "jstring list list"

record mutation_options =
  mutationFn :: "jsvalue \<Rightarrow> api_call"
  onMutate :: "callback option"
  onSuccess :: "callback option"
  onError :: "callback option"
  onSettled :: "callback option"

definition run_callback :: "callback option \<Rightarrow> cache \<Rightarrow> cache" where
  "run_callback cb c = (case cb of None \<Rightarrow> c | Some ks \<Rightarrow> fold invalidateQueries ks c)"

text \<open>The hooks declare \<^verbatim>\<open>mutationFn\<close> and at most \<^verbatim>\<open>onSuccess\<close>.\<close>

definition useMutation :: "(jsvalue \<Rightarrow> api_call) \<Rightarrow> callback option \<Rightarrow> mutation_options" where
  "useMutation fn success =
     \<lparr>mutationFn = fn, onMutate = None, onSuccess = success, onError = None,
      onSettled = None\<rparr>"

datatype binding =
    UseCreateTenant
  | UseUpdateTenant jstring
  | UseDeleteTenant
  | UseDeleteTenantPermanent
  | UseCreateUser
  | UseUpdateUser jstring
  | UseDeleteUser
  | UseDeleteUserPermanent
  | UseChangePassword jstring
  | UseCreateClient
  | UseUpdateClient jstring
  | UseDeleteClient
  | UseEnableModule
  | UseDisableModule

fun binding_options :: "binding \<Rightarrow> mutation_options" where
  "binding_options UseCreateTenant =
     useMutation (\<lambda>data. ApiCall ''tenants'' ''create'' [data]) (Some [[js ''tenants'']])"
| "binding_options (UseUpdateTenant ident) =
     useMutation (\<lambda>data. ApiCall ''tenants'' ''update'' [JStr ident, data])
       (Some [[js ''tenants''], [js ''tenants'', ident]])"
| "binding_options UseDeleteTenant =
     useMutation (\<lambda>i. ApiCall ''tenants'' ''delete'' [i]) (Some [[js ''tenants'']])"
| "binding_options UseDeleteTenantPermanent =
     useMutation (\<lambda>i. ApiCall ''tenants'' ''deletePermanent'' [i]) (Some [[js ''tenants'']])"
| "binding_options UseCreateUser =
     useMutation (\<lambda>data. ApiCall ''users'' ''create'' [data]) (Some [[js ''users'']])"
| "binding_options (UseUpdateUser ident) =
     useMutation (\<lambda>data. ApiCall ''users'' ''update'' [JStr ident, data])
       (Some [[js ''users''], [js ''users'', ident]])"
| "binding_options UseDeleteUser =
     useMutation (\<lambda>i. ApiCall ''users'' ''delete'' [i]) (Some [[js ''users'']])"
| "binding_options UseDeleteUserPermanent =
     useMutation (\<lambda>i. ApiCall ''users'' ''deletePermanent'' [i]) (Some [[js ''users'']])"
| "binding_options (UseChangePassword ident) =
     useMutation (\<lambda>data. ApiCall ''users'' ''changePassword'' [JStr ident, data]) None"
| "binding_options UseCreateClient =
     useMutation (\<lambda>data. ApiCall ''clients'' ''create'' [data])
       (Some [[js ''clients''], [js ''stats'']])"
| "binding_options (UseUpdateClient ident) =
     useMutation (\<lambda>data. ApiCall ''clients'' ''update'' [JStr ident, data])
       (Some [[js ''clients''], [js ''clients'', ident]])"
| "binding_options UseDeleteClient =
     useMutation (\<lambda>i. ApiCall ''clients'' ''delete'' [i])
       (Some [[js ''clients''], [js ''stats'']])"
| "binding_options UseEnableModule =
     useMutation
       (\<lambda>v. ApiCall ''modules'' ''enable'' [get_prop v ''moduleId'', get_prop v ''tenantId''])
       (Some [[js ''modules'']])"
| "binding_options UseDisableModule =
     useMutation
       (\<lambda>v. ApiCall ''modules'' ''disable'' [get_prop v ''moduleId'', get_prop v ''tenantId''])
       (Some [[js ''modules'']])"

text \<open>Modelled from the spec: \<^verbatim>\<open>useCreateProduct\<close>, which the product dialog imports
  from the hooks module; the text of that module under src declares no product binding.
  The spec: product creation invalidates the collection key and the aggregate
  statistics key.\<close>

definition useCreateProduct :: mutation_options where
  "useCreateProduct =
     useMutation (\<lambda>data. ApiCall ''products'' ''create'' [data])
       (Some [[js ''products''], [js ''stats'']])"

text \<open>Modelled from the spec: \<^verbatim>\<open>useUpdateProduct\<close>, absent from src in the same way.
  The spec: a product update invalidates the collection key and the key of the item, not
  the statistics.\<close>

definition useUpdateProduct :: "jstring \<Rightarrow> mutation_options" where
  "useUpdateProduct ident =
     useMutation (\<lambda>data. ApiCall ''products'' ''update'' [JStr ident, data])
       (Some [[js ''products''], [js ''products'', ident]])"

text \<open>Modelled from the spec: \<^verbatim>\<open>useDeleteProduct\<close>, absent from src in the same way.
  The spec: product deletion invalidates the collection key and the aggregate statistics
  key.\<close>

definition useDeleteProduct :: mutation_options where
  "useDeleteProduct =
     useMutation (\<lambda>i. ApiCall ''products'' ''delete'' [i])
       (Some [[js ''products''], [js ''stats'']])"

text \<open>
  \<^verbatim>\<open>mutation.mutateAsync(variables)\<close>: the library runs \<^verbatim>\<open>onMutate\<close>, performs the
  remote call of \<^verbatim>\<open>mutationFn\<close> once (mutations are not retried unless a retry count is
  configured, and none is), then runs \<^verbatim>\<open>onSuccess\<close> and \<^verbatim>\<open>onSettled\<close> and resolves with
  the data, or runs \<^verbatim>\<open>onError\<close> and \<^verbatim>\<open>onSettled\<close> and rejects with the error. \<open>remote\<close>
  is the REST service: \<open>Inl\<close> a rejection, \<open>Inr\<close> the response.
\<close>

definition mutateAsync ::
  "mutation_options \<Rightarrow> (api_call \<Rightarrow> jsvalue + jsvalue) \<Rightarrow> jsvalue \<Rightarrow> cache
     \<Rightarrow> (jsvalue + jsvalue) \<times> cache" where
  "mutateAsync opts remote variables c =
     (let c1 = run_callback (onMutate opts) c in
      case remote (mutationFn opts variables) of
        Inr data \<Rightarrow>
          (Inr data, run_callback (onSettled opts) (run_callback (onSuccess opts) c1))
      | Inl error \<Rightarrow>
          (Inl error, run_callback (onSettled opts) (run_callback (onError opts) c1)))"

text \<open>The filter keys a binding invalidates when its call succeeds, and the collection
  key of the resource its call addresses.\<close>

definition invalidates :: "mutation_options \<Rightarrow> jstring list set" where
  "invalidates opts = (case onSuccess opts of None \<Rightarrow> {} | Some ks \<Rightarrow> set ks)"

definition collectionKey :: "mutation_options \<Rightarrow> jstring list" where
  "collectionKey opts = [js (resource (mutationFn opts JUndefined))]"

text \<open>A service that accepts every call, and one that rejects every call.\<close>

definition remote_ok :: "api_call \<Rightarrow> jsvalue + jsvalue" where
  "remote_ok call = Inr JNull"

definition remote_down :: "api_call \<Rightarrow> jsvalue + jsvalue" where
  "remote_down call = Inl (JError [(''message'', JStr (js ''Network error''))])"


section \<open>Tenant deletion dialog\<close>

record tenant =
  tenant_ident :: jstring
  tenant_name :: jstring
  slug :: jstring

datatype delete_mode = Deactivate | Permanent

record delete_dialog =
  isDeleting :: bool
  confirmText :: jstring

text \<open>What a handler does to the world outside the dialog's own state.\<close>

datatype dialog_event =
    Mutate binding jsvalue
  | OnOpenChange bool
  | ConsoleError jsvalue

text \<open>
  \<^verbatim>\<open>
  const handleDelete = async () => {
    if (!tenant) return;
    if (mode === "permanent" && confirmText !== tenant.slug) { return; }
    setIsDeleting(true);
    try {
      if (mode === "permanent") { await deleteTenantPermanent.mutateAsync(tenant.id); }
      else { await deleteTenant.mutateAsync(tenant.id); }
      onOpenChange(false);
      setConfirmText("");
    } catch (error) { console.error("Failed to delete tenant:", error); }
    finally { setIsDeleting(false); }
  };
  \<close>
  The handler runs in two steps around the awaited call. \<open>handleDelete_start\<close> is the
  part before it: \<open>None\<close> when the handler returns at once, else the state while the
  call is pending and the call. \<open>handleDelete_settle\<close> is the part after it, for the
  outcome of the call. \<open>mutate\<close> is the outcome of \<^verbatim>\<open>mutateAsync\<close> of a binding.
\<close>

definition handleDelete_start ::
  "delete_mode \<Rightarrow> tenant option \<Rightarrow> delete_dialog \<Rightarrow> (delete_dialog \<times> binding \<times> jsvalue) option" where
  "handleDelete_start mode t st =
     (case t of
        None \<Rightarrow> None
      | Some tn \<Rightarrow>
          if mode = Permanent \<and> confirmText st \<noteq> slug tn then None
          else Some (st\<lparr>isDeleting := True\<rparr>,
                     (if mode = Permanent then UseDeleteTenantPermanent else UseDeleteTenant),
                     JStr (tenant_ident tn)))"

definition handleDelete_settle ::
  "jsvalue + jsvalue \<Rightarrow> delete_dialog \<Rightarrow> delete_dialog \<times> dialog_event list" where
  "handleDelete_settle outcome st =
     (case outcome of
        Inr data \<Rightarrow> (st\<lparr>confirmText := [], isDeleting := False\<rparr>, [OnOpenChange False])
      | Inl error \<Rightarrow> (st\<lparr>isDeleting := False\<rparr>, [ConsoleError error]))"

definition handleDelete ::
  "(binding \<Rightarrow> jsvalue \<Rightarrow> jsvalue + jsvalue) \<Rightarrow> delete_mode \<Rightarrow> tenant option
     \<Rightarrow> delete_dialog \<Rightarrow> delete_dialog \<times> dialog_event list" where
  "handleDelete mutate mode t st =
     (case handleDelete_start mode t st of
        None \<Rightarrow> (st, [])
      | Some (pending, b, v) \<Rightarrow>
          (case handleDelete_settle (mutate b v) pending of
             (st', events) \<Rightarrow> (st', Mutate b v # events)))"

text \<open>The \<^verbatim>\<open>disabled\<close> attribute of the action button, in the permanent and in the
  deactivate rendering, and the change handler of the confirmation input.\<close>

definition permanentDeleteDisabled :: "delete_dialog \<Rightarrow> tenant \<Rightarrow> bool" where
  "permanentDeleteDisabled st tn \<longleftrightarrow> isDeleting st \<or> confirmText st \<noteq> slug tn"

definition deactivateDisabled :: "delete_dialog \<Rightarrow> bool" where
  "deactivateDisabled st \<longleftrightarrow> isDeleting st"

definition setConfirmText :: "jstring \<Rightarrow> delete_dialog \<Rightarrow> delete_dialog" where
  "setConfirmText v st = st\<lparr>confirmText := v\<rparr>"

definition handleOpenChange :: "bool \<Rightarrow> delete_dialog \<Rightarrow> delete_dialog \<times> dialog_event list" where
  "handleOpenChange opn st =
     ((if \<not> opn then st\<lparr>confirmText := []\<rparr> else st), [OnOpenChange opn])"


section \<open>Schema validation\<close>

text \<open>
  A validation issue of the schema library: the path of the field it is attached to and
  its message. A schema's parse gives the issues (\<open>Inl\<close>, never empty) or the parsed
  value (\<open>Inr\<close>). The library's test for e-mail addresses is the parameter \<open>is_email\<close>.
\<close>

datatype issue = Issue (path: "string list") (message: string)

text \<open>\<^verbatim>\<open>z.string()\<close> with its checks: \<^verbatim>\<open>undefined\<close> is refused, a string is given to
  the checks, which all run.\<close>

definition zString :: "string list \<Rightarrow> (jstring \<Rightarrow> issue list) \<Rightarrow> jstring option \<Rightarrow> issue list" where
  "zString p checks v = (case v of None \<Rightarrow> [Issue p ''Required''] | Some s \<Rightarrow> checks s)"

definition zMin :: "string list \<Rightarrow> nat \<Rightarrow> string \<Rightarrow> jstring \<Rightarrow> issue list" where
  "zMin p n msg s = (if length s < n then [Issue p msg] else [])"

definition zMax :: "string list \<Rightarrow> nat \<Rightarrow> string \<Rightarrow> jstring \<Rightarrow> issue list" where
  "zMax p n msg s = (if length s > n then [Issue p msg] else [])"

definition zEmail :: "(jstring \<Rightarrow> bool) \<Rightarrow> string list \<Rightarrow> string \<Rightarrow> jstring \<Rightarrow> issue list" where
  "zEmail is_email p msg s = (if is_email s then [] else [Issue p msg])"

text \<open>\<^verbatim>\<open>.optional()\<close>: \<^verbatim>\<open>undefined\<close> passes, anything else goes to the inner schema.\<close>

definition zOptional :: "(jstring option \<Rightarrow> issue list) \<Rightarrow> jstring option \<Rightarrow> issue list" where
  "zOptional inner v = (case v of None \<Rightarrow> [] | Some s \<Rightarrow> inner v)"

text \<open>\<^verbatim>\<open>.or(z.literal(""))\<close>: a union tries its options in order and accepts with the
  first that accepts; when none does, it reports the issues of the first option (its
  checks failed, its type matched).\<close>

definition zOrEmptyLiteral :: "(jstring option \<Rightarrow> issue list) \<Rightarrow> jstring option \<Rightarrow> issue list" where
  "zOrEmptyLiteral first v =
     (if first v = [] then [] else if v = Some [] then [] else first v)"


section \<open>Client form\<close>

datatype client_type = Individual | Entity | Trust

datatype risk_profile = Conservative | Moderate | Balanced | Growth | Aggressive

datatype kyc_status = Pending | InProgress | Approved | Rejected | Expired

datatype form_mode = Create | Edit

fun clientTypes :: "client_type \<Rightarrow> jstring" where
  "clientTypes Individual = js ''individual''"
| "clientTypes Entity = js ''entity''"
| "clientTypes Trust = js ''trust''"

fun riskProfiles :: "risk_profile \<Rightarrow> jstring" where
  "riskProfiles Conservative = js ''conservative''"
| "riskProfiles Moderate = js ''moderate''"
| "riskProfiles Balanced = js ''balanced''"
| "riskProfiles Growth = js ''growth''"
| "riskProfiles Aggressive = js ''aggressive''"

fun kycStatuses :: "kyc_status \<Rightarrow> jstring" where
  "kycStatuses Pending = js ''pending''"
| "kycStatuses InProgress = js ''in_progress''"
| "kycStatuses Approved = js ''approved''"
| "kycStatuses Rejected = js ''rejected''"
| "kycStatuses Expired = js ''expired''"

text \<open>
  The form values, \<^verbatim>\<open>ClientFormData\<close>. \<open>None\<close> is \<^verbatim>\<open>undefined\<close>. The three
  enumerations are typed by the selects that set them, so the schema's \<^verbatim>\<open>z.enum\<close> checks
  accept every value of the record.
\<close>

record client_form =
  client_type :: client_type
  first_name :: "jstring option"
  last_name :: "jstring option"
  entity_name :: "jstring option"
  email :: "jstring option"
  phone :: "jstring option"
  risk_profile :: "risk_profile option"
  kyc_status :: "kyc_status option"
  extra_data :: "jstring option"

text \<open>Truthiness of an optional string: defined and not empty.\<close>

definition truthyStr :: "jstring option \<Rightarrow> bool" where
  "truthyStr v \<longleftrightarrow> (case v of None \<Rightarrow> False | Some s \<Rightarrow> s \<noteq> [])"

text \<open>
  \<^verbatim>\<open>
  .refine((data) => {
    if (data.client_type === "individual") { return data.first_name && data.last_name; }
    return data.entity_name;
  }, { message: "Individual clients require ...", path: ["client_type"] })
  \<close>
\<close>

definition clientSchema_refinement :: "client_form \<Rightarrow> bool" where
  "clientSchema_refinement data =
     (if client_type data = Individual
      then truthyStr (first_name data) \<and> truthyStr (last_name data)
      else truthyStr (entity_name data))"

definition refinement_issue :: issue where
  "refinement_issue =
     Issue [''client_type'']
       ''Individual clients require first and last name; entities require entity name''"

text \<open>
  The object schema: of the fields of a \<open>client_form\<close> only \<^verbatim>\<open>email\<close> carries a check
  that can fail. In version 3 of the schema library, whose idiom
  \<^verbatim>\<open>.optional().or(z.literal(""))\<close> is, a failed check on a value of the right type
  leaves the object parsed, so the refinement runs on it as well, and the issues of both
  are reported.
\<close>

definition clientSchema :: "(jstring \<Rightarrow> bool) \<Rightarrow> client_form \<Rightarrow> issue list + client_form" where
  "clientSchema is_email data =
     (let issues =
            zOrEmptyLiteral
              (zOptional (zString [''email''] (zEmail is_email [''email''] ''Invalid email'')))
              (email data)
            @ (if clientSchema_refinement data then [] else [refinement_issue])
      in if issues = [] then Inr data else Inl issues)"

text \<open>The values a new form starts from, without \<^verbatim>\<open>defaultValues\<close> of the caller.\<close>

definition ClientForm_defaultValues :: "form_mode \<Rightarrow> client_form" where
  "ClientForm_defaultValues mode =
     \<lparr>client_type = Individual, first_name = Some [], last_name = Some [],
      entity_name = Some [], email = Some [], phone = Some [], risk_profile = None,
      kyc_status = (if mode = Create then Some Pending else None), extra_data = Some []\<rparr>"

text \<open>
  \<^verbatim>\<open>
  useEffect(() => {
    if (mode === "create") {
      if (clientType === "individual") { form.setValue("entity_name", ""); }
      else { form.setValue("first_name", ""); form.setValue("last_name", ""); }
    }
  }, [clientType, mode, form]);
  \<close>
  \<open>clientTypeEffect\<close> is the body of the effect. \<open>selectClientType\<close> is a choice in the
  select of the client type: the select is disabled in edit mode, it writes the chosen
  value into the form state, and the effect runs when the watched value has changed.
\<close>

definition clientTypeEffect :: "form_mode \<Rightarrow> client_form \<Rightarrow> client_form" where
  "clientTypeEffect mode st =
     (if mode = Create then
        (if client_type st = Individual then st\<lparr>entity_name := Some []\<rparr>
         else st\<lparr>first_name := Some [], last_name := Some []\<rparr>)
      else st)"

definition selectClientType :: "form_mode \<Rightarrow> client_type \<Rightarrow> client_form \<Rightarrow> client_form" where
  "selectClientType mode t st =
     (if mode = Edit \<or> t = client_type st then st
      else clientTypeEffect mode (st\<lparr>client_type := t\<rparr>))"

text \<open>
  \<^verbatim>\<open>handleSubmit\<close> of the client form builds \<^verbatim>\<open>submitData: Record<string, any>\<close> key
  by key and hands it to \<^verbatim>\<open>onSubmit\<close>; the model returns it.
  \<^verbatim>\<open>if (data.f?.trim()) submitData.f = data.f.trim();\<close> is \<open>putTrimmed\<close>.
  \<^verbatim>\<open>JSON.parse\<close> is the parameter \<open>JSON_parse\<close>, \<open>None\<close> when it throws.
\<close>

definition putTrimmed ::
  "string \<Rightarrow> jstring option \<Rightarrow> (string \<rightharpoonup> jsvalue) \<Rightarrow> (string \<rightharpoonup> jsvalue)" where
  "putTrimmed k v m =
     (case v of
        None \<Rightarrow> m
      | Some s \<Rightarrow> if trim s \<noteq> [] then m(k \<mapsto> JStr (trim s)) else m)"

definition putIfDefined ::
  "string \<Rightarrow> jstring option \<Rightarrow> (string \<rightharpoonup> jsvalue) \<Rightarrow> (string \<rightharpoonup> jsvalue)" where
  "putIfDefined k v m = (case v of None \<Rightarrow> m | Some s \<Rightarrow> m(k \<mapsto> JStr s))"

definition putParsed ::
  "(jstring \<Rightarrow> jsvalue option) \<Rightarrow> string \<Rightarrow> jstring option \<Rightarrow> (string \<rightharpoonup> jsvalue)
     \<Rightarrow> (string \<rightharpoonup> jsvalue)" where
  "putParsed JSON_parse k v m =
     (case v of
        None \<Rightarrow> m
      | Some s \<Rightarrow>
          if trim s \<noteq> [] then (case JSON_parse s of Some j \<Rightarrow> m(k \<mapsto> j) | None \<Rightarrow> m)
          else m)"

definition ClientForm_handleSubmit ::
  "(jstring \<Rightarrow> jsvalue option) \<Rightarrow> client_form \<Rightarrow> (string \<rightharpoonup> jsvalue)" where
  "ClientForm_handleSubmit JSON_parse data =
     putParsed JSON_parse ''extra_data'' (extra_data data)
      (putIfDefined ''kyc_status'' (map_option kycStatuses (kyc_status data))
      (putIfDefined ''risk_profile'' (map_option riskProfiles (risk_profile data))
      (putTrimmed ''phone'' (phone data)
      (putTrimmed ''email'' (email data)
      (putTrimmed ''entity_name'' (entity_name data)
      (putTrimmed ''last_name'' (last_name data)
      (putTrimmed ''first_name'' (first_name data)
        [''client_type'' \<mapsto> JStr (clientTypes (client_type data))])))))))"

text \<open>The optional free-text fields of the form, each with the key it is submitted
  under; what the normalisation makes of such a field; and what it is for a submitted
  value to be a trimmed string.\<close>

definition textFields :: "(string \<times> (client_form \<Rightarrow> jstring option)) list" where
  "textFields =
     [(''first_name'', first_name), (''last_name'', last_name), (''entity_name'', entity_name),
      (''email'', email), (''phone'', phone)]"

definition trimmedOrOmitted :: "jstring option \<Rightarrow> jsvalue option" where
  "trimmedOrOmitted v =
     (case v of None \<Rightarrow> None | Some s \<Rightarrow> if trim s = [] then None else Some (JStr (trim s)))"

definition isTrimmedString :: "jsvalue option \<Rightarrow> bool" where
  "isTrimmedString v \<longleftrightarrow>
     (case v of None \<Rightarrow> True | Some (JStr s) \<Rightarrow> trim s = s \<and> s \<noteq> [] | Some _ \<Rightarrow> False)"

section \<open>Client dialog: the message of a failed call\<close>

text \<open>
  \<^verbatim>\<open>
  } catch (error: any) {
    let errorMessage = "Failed to save client. Please try again.";
    if (error instanceof Error) { errorMessage = error.message; }
    else if (typeof error === "string") { errorMessage = error; }
    else if (error?.message) { errorMessage = error.message; }
    else if (error?.detail) {
      errorMessage = typeof error.detail === "string"
        ? error.detail : JSON.stringify(error.detail);
    }
    toast({ variant: "destructive", title: "Error", description: errorMessage });
  }
  \<close>
  The model gives the \<^verbatim>\<open>description\<close> handed to the toast. \<^verbatim>\<open>JSON.stringify\<close> is the
  parameter \<open>JSON_stringify\<close>.
\<close>

definition fallbackMessage :: jsvalue where
  "fallbackMessage = JStr (js ''Failed to save client. Please try again.'')"

definition ClientDialog_errorMessage :: "(jsvalue \<Rightarrow> jsvalue) \<Rightarrow> jsvalue \<Rightarrow> jsvalue" where
  "ClientDialog_errorMessage JSON_stringify error =
     (if instanceofError error then get_prop error ''message''
      else if isString error then error
      else if truthy (get_prop error ''message'') then get_prop error ''message''
      else if truthy (get_prop error ''detail'') then
        (if isString (get_prop error ''detail'') then get_prop error ''detail''
         else JSON_stringify (get_prop error ''detail''))
      else fallbackMessage)"


section \<open>User form\<close>

text \<open>The form values as the schema reads them, \<^verbatim>\<open>UserFormValues\<close>; \<open>None\<close> is
  \<^verbatim>\<open>undefined\<close>.\<close>

record user_form =
  user_email :: "jstring option"
  user_first_name :: "jstring option"
  user_last_name :: "jstring option"
  password :: "jstring option"
  is_active :: "bool option"
  tenant_id :: "jstring option"
  role_ids :: "jstring list option"

text \<open>The fields that \<^verbatim>\<open>userFormSchema\<close> checks and both modes share, in the order of
  the schema.\<close>

definition userFormSchema_email :: "(jstring \<Rightarrow> bool) \<Rightarrow> user_form \<Rightarrow> issue list" where
  "userFormSchema_email is_email v =
     zString [''email''] (zEmail is_email [''email''] ''Invalid email address'') (user_email v)"

definition userFormSchema_names :: "user_form \<Rightarrow> issue list" where
  "userFormSchema_names v =
     zString [''first_name'']
       (\<lambda>s. zMin [''first_name''] 1 ''First name is required'' s
           @ zMax [''first_name''] 100 ''First name must be less than 100 characters'' s)
       (user_first_name v)
     @ zString [''last_name'']
       (\<lambda>s. zMin [''last_name''] 1 ''Last name is required'' s
           @ zMax [''last_name''] 100 ''Last name must be less than 100 characters'' s)
       (user_last_name v)"

text \<open>\<^verbatim>\<open>z.string().min(8, ...).max(100, ...)\<close>, the password of both extended schemas.\<close>

definition passwordString :: "jstring option \<Rightarrow> issue list" where
  "passwordString =
     zString [''password'']
       (\<lambda>s. zMin [''password''] 8 ''Password must be at least 8 characters'' s
           @ zMax [''password''] 100 ''Password must be less than 100 characters'' s)"

text \<open>The parsed value: \<^verbatim>\<open>is_active: z.boolean().default(true)\<close> fills in a missing
  flag.\<close>

definition userFormSchema_output :: "user_form \<Rightarrow> user_form" where
  "userFormSchema_output v =
     v\<lparr>is_active := Some (case is_active v of None \<Rightarrow> True | Some b \<Rightarrow> b)\<rparr>"

definition createUserSchema :: "(jstring \<Rightarrow> bool) \<Rightarrow> user_form \<Rightarrow> issue list + user_form" where
  "createUserSchema is_email v =
     (let issues = userFormSchema_email is_email v @ userFormSchema_names v
                   @ passwordString (password v)
      in if issues = [] then Inr (userFormSchema_output v) else Inl issues)"

definition editUserSchema :: "(jstring \<Rightarrow> bool) \<Rightarrow> user_form \<Rightarrow> issue list + user_form" where
  "editUserSchema is_email v =
     (let issues = userFormSchema_email is_email v @ userFormSchema_names v
                   @ zOrEmptyLiteral (zOptional passwordString) (password v)
      in if issues = [] then Inr (userFormSchema_output v) else Inl issues)"

text \<open>\<^verbatim>\<open>const schema = mode === "create" ? createUserSchema : editUserSchema;\<close>\<close>

definition UserForm_schema ::
  "form_mode \<Rightarrow> (jstring \<Rightarrow> bool) \<Rightarrow> user_form \<Rightarrow> issue list + user_form" where
  "UserForm_schema mode = (if mode = Create then createUserSchema else editUserSchema)"

text \<open>
  An object as its own properties: a key outside the domain is absent, a key mapped to
  \<open>JUndefined\<close> is present and holds \<^verbatim>\<open>undefined\<close>. \<open>read_prop\<close> is the property read
  \<^verbatim>\<open>obj.k\<close>, which does not tell the two apart.
\<close>

definition read_prop :: "(string \<rightharpoonup> jsvalue) \<Rightarrow> string \<Rightarrow> jsvalue" where
  "read_prop obj k = (case obj k of None \<Rightarrow> JUndefined | Some v \<Rightarrow> v)"

definition optString :: "jstring option \<Rightarrow> jsvalue" where
  "optString v = (case v of None \<Rightarrow> JUndefined | Some s \<Rightarrow> JStr s)"

text \<open>
  The parsed values as the object that reaches \<^verbatim>\<open>handleSubmit\<close>. The form lists all
  seven keys in its default values and the schema's output keeps every key of its
  input, so each field is an own property; a field that is \<open>None\<close> holds \<^verbatim>\<open>undefined\<close>.
\<close>

definition UserFormValues_object :: "user_form \<Rightarrow> (string \<rightharpoonup> jsvalue)" where
  "UserFormValues_object v =
     [''email'' \<mapsto> optString (user_email v),
      ''first_name'' \<mapsto> optString (user_first_name v),
      ''last_name'' \<mapsto> optString (user_last_name v),
      ''password'' \<mapsto> optString (password v),
      ''is_active'' \<mapsto> (case is_active v of None \<Rightarrow> JUndefined | Some b \<Rightarrow> JBool b),
      ''tenant_id'' \<mapsto> optString (tenant_id v),
      ''role_ids'' \<mapsto> (case role_ids v of None \<Rightarrow> JUndefined | Some rs \<Rightarrow> JArr (map JStr rs))]"

text \<open>
  \<^verbatim>\<open>
  const cleanedValues = {
    ...values,
    password: values.password || undefined,
    tenant_id: showTenantSelector ? values.tenant_id : currentTenantId,
  };
  await onSubmit(cleanedValues);
  \<close>
  The object literal copies the own properties of \<^verbatim>\<open>values\<close> and then sets the two
  keys \<^verbatim>\<open>password\<close> and \<^verbatim>\<open>tenant_id\<close>, whatever their values are. The model returns
  the object handed to \<^verbatim>\<open>onSubmit\<close>.
\<close>

definition UserForm_handleSubmit ::
  "bool \<Rightarrow> jstring option \<Rightarrow> (string \<rightharpoonup> jsvalue) \<Rightarrow> (string \<rightharpoonup> jsvalue)" where
  "UserForm_handleSubmit showTenantSelector currentTenantId values =
     values(''password'' \<mapsto>
              (if truthy (read_prop values ''password'') then read_prop values ''password''
               else JUndefined),
            ''tenant_id'' \<mapsto>
              (if showTenantSelector then read_prop values ''tenant_id''
               else optString currentTenantId))"

text \<open>Submitting the form: the resolver validates, and only a valid form reaches
  \<^verbatim>\<open>handleSubmit\<close>.\<close>

definition UserForm_submit ::
  "form_mode \<Rightarrow> (jstring \<Rightarrow> bool) \<Rightarrow> bool \<Rightarrow> jstring option \<Rightarrow> user_form
     \<Rightarrow> issue list + (string \<rightharpoonup> jsvalue)" where
  "UserForm_submit mode is_email showTenantSelector currentTenantId v =
     (case UserForm_schema mode is_email v of
        Inl issues \<Rightarrow> Inl issues
      | Inr values \<Rightarrow>
          Inr (UserForm_handleSubmit showTenantSelector currentTenantId
                 (UserFormValues_object values)))"

definition ClientForm_submit ::
  "(jstring \<Rightarrow> bool) \<Rightarrow> (jstring \<Rightarrow> jsvalue option) \<Rightarrow> client_form
     \<Rightarrow> issue list + (string \<rightharpoonup> jsvalue)" where
  "ClientForm_submit is_email JSON_parse v =
     (case clientSchema is_email v of
        Inl issues \<Rightarrow> Inl issues
      | Inr data \<Rightarrow> Inr (ClientForm_handleSubmit JSON_parse data))"


section \<open>Sample data and instances of the parameters\<close>

text \<open>A tenant, a filled client form, a user form with a blank password, and functions to put in the place of the
  library parameters in closed statements. \<open>stringify_literal\<close> and \<open>parse_literal\<close>
  agree with \<^verbatim>\<open>JSON.stringify\<close> and \<^verbatim>\<open>JSON.parse\<close> on the literals they list and on
  the malformed text \<^verbatim>\<open>{oops\<close>; they are applied to nothing else.\<close>

definition acme :: tenant where
  "acme = \<lparr>tenant_ident = js ''t1'', tenant_name = js ''Acme Wealth'', slug = js ''acme-wealth''\<rparr>"

definition walkin :: client_form where
  "walkin =
     \<lparr>client_type = Individual, first_name = Some (js ''  Ada ''), last_name = Some (js ''Lovelace''),
      entity_name = Some [], email = Some (js '' ''), phone = None, risk_profile = Some Growth,
      kyc_status = Some Pending, extra_data = Some (js ''{oops'')\<rparr>"

definition newUser :: user_form where
  "newUser =
     \<lparr>user_email = Some (js ''ada@example.org''), user_first_name = Some (js ''Ada''),
      user_last_name = Some (js ''Lovelace''), password = Some [], is_active = Some True,
      tenant_id = Some (js ''t1''), role_ids = Some []\<rparr>"

fun stringify_literal :: "jsvalue \<Rightarrow> jsvalue" where
  "stringify_literal JNull = JStr (js ''null'')"
| "stringify_literal (JBool b) = JStr (js (if b then ''true'' else ''false''))"
| "stringify_literal _ = JUndefined"

definition parse_literal :: "jstring \<Rightarrow> jsvalue option" where
  "parse_literal s =
     (if s = js ''null'' then Some JNull
      else if s = js ''true'' then Some (JBool True)
      else if s = js ''false'' then Some (JBool False)
      else if s = js ''{}'' then Some (JObj [])
      else None)"

definition has_at_sign :: "jstring \<Rightarrow> bool" where
  "has_at_sign s \<longleftrightarrow> 64 \<in> set s"


section \<open>Properties of slug generation\<close>

lemma replace_runs_set:
  "set (replace_runs p r s) \<subseteq> set r \<union> {c \<in> set s. \<not> p c}"
proof (induction p r s rule: replace_runs.induct)
  case (1 p r)
  show ?case by simp
next
  case (2 p r c cs)
  show ?case
  proof (cases "p c")
    case True
    have "set (dropWhile p cs) \<subseteq> set cs"
      using set_dropWhileD by fastforce
    with 2(1)[OF True] True show ?thesis by auto
  next
    case False
    with 2(2)[OF False] show ?thesis by auto
  qed
qed

lemma replace_runs_id:
  "\<forall>c \<in> set s. \<not> p c \<Longrightarrow> replace_runs p r s = s"
  by (induction s) auto

lemma replace_runs_head:
  "s \<noteq> [] \<Longrightarrow> \<not> p (hd s) \<Longrightarrow> hd (replace_runs p r s) = hd s"
  by (cases s) auto

lemma replace_runs_nonempty:
  "s \<noteq> [] \<Longrightarrow> \<not> p (hd s) \<Longrightarrow> replace_runs p r s \<noteq> []"
  by (cases s) auto

lemma no_double_hyphen_Cons:
  "no_double_hyphen (x # s) \<longleftrightarrow>
     (s = [] \<or> \<not> (isHyphen x \<and> isHyphen (hd s))) \<and> no_double_hyphen s"
  by (cases s) auto

lemma replace_hyphen_runs_no_double:
  "no_double_hyphen (replace_runs isHyphen [45] s)"
proof (induction "isHyphen" "[45::nat]" s rule: replace_runs.induct)
  case 1
  show ?case by simp
next
  case (2 c cs)
  show ?case
  proof (cases "isHyphen c")
    case True
    let ?d = "dropWhile isHyphen cs"
    have ih: "no_double_hyphen (replace_runs isHyphen [45] ?d)"
      using 2(1)[OF True] .
    have unfold: "replace_runs isHyphen [45] (c # cs) = 45 # replace_runs isHyphen [45] ?d"
      using True by simp
    show ?thesis
    proof (cases "?d = []")
      case True
      have "replace_runs isHyphen [45] ?d = []"
        by (simp only: True replace_runs.simps)
      with unfold show ?thesis by simp
    next
      case False
      then have nh: "\<not> isHyphen (hd ?d)" by (simp add: hd_dropWhile)
      with False have "hd (replace_runs isHyphen [45] ?d) = hd ?d"
        by (rule replace_runs_head)
      with ih nh unfold show ?thesis by (simp add: no_double_hyphen_Cons)
    qed
  next
    case False
    with 2(2)[OF False] show ?thesis
      by (cases "replace_runs isHyphen [45] cs") (auto simp: no_double_hyphen_Cons)
  qed
qed

lemma replace_hyphen_runs_id:
  "no_double_hyphen s \<Longrightarrow> replace_runs isHyphen [45] s = s"
  by (induction s rule: no_double_hyphen.induct) (auto simp: isHyphen_def)

lemma dropWhile_none:
  "\<forall>c \<in> set t. \<not> p c \<Longrightarrow> dropWhile p t = t"
  by (cases t) auto

lemma trim_id:
  assumes "\<forall>c \<in> set s. \<not> isWhiteSpace c"
  shows "trim s = s"
proof -
  have "dropWhile isWhiteSpace s = s"
    using assms by (rule dropWhile_none)
  moreover have "dropWhile isWhiteSpace (rev s) = rev s"
    using assms by (intro dropWhile_none) simp
  ultimately show ?thesis by (simp add: trim_def)
qed

lemma slug_letter_not_space: "isSlugLetter c \<Longrightarrow> \<not> isWhiteSpace c"
  by (auto simp: isSlugLetter_def isWhiteSpace_def)

lemma hyphen_not_space: "isHyphen c \<Longrightarrow> \<not> isWhiteSpace c"
  by (auto simp: isHyphen_def isWhiteSpace_def)

lemma slug_chars_no_space:
  "slug_chars s \<Longrightarrow> \<forall>c \<in> set s. \<not> isWhiteSpace c"
  by (auto simp: slug_chars_def list_all_iff slug_letter_not_space hyphen_not_space)

lemma slug_body_chars: "slug_chars (slug_body lc name)"
proof -
  let ?a = "filter (\<lambda>c. isSlugLetter c \<or> isWhiteSpace c \<or> isHyphen c) (lc name)"
  let ?b = "replace_runs isWhiteSpace [45] ?a"
  have b: "\<forall>c \<in> set ?b. isSlugLetter c \<or> isHyphen c"
    using replace_runs_set[of isWhiteSpace "[45]" ?a] by (auto simp: isHyphen_def)
  have "\<forall>c \<in> set (replace_runs isHyphen [45] ?b). isSlugLetter c \<or> isHyphen c"
    using replace_runs_set[of isHyphen "[45]" ?b] b by (auto simp: isHyphen_def)
  then show ?thesis by (simp add: slug_body_def slug_chars_def list_all_iff)
qed

lemma generateSlug_body: "generateSlug lc name = slug_body lc name"
proof -
  have "trim (slug_body lc name) = slug_body lc name"
    by (rule trim_id) (rule slug_chars_no_space, rule slug_body_chars)
  then show ?thesis by (simp add: generateSlug_def slug_body_def)
qed

lemma generateSlug_chars: "slug_chars (generateSlug lc name)"
  by (simp add: generateSlug_body slug_body_chars)

lemma generateSlug_no_double: "no_double_hyphen (generateSlug lc name)"
  by (simp add: generateSlug_body slug_body_def replace_hyphen_runs_no_double)

lemma generateSlug_fixes_slugs:
  assumes lc: "lc s = s" and chars: "slug_chars s" and nd: "no_double_hyphen s"
  shows "generateSlug lc s = s"
proof -
  have f: "filter (\<lambda>c. isSlugLetter c \<or> isWhiteSpace c \<or> isHyphen c) s = s"
    using chars by (intro filter_True) (auto simp: slug_chars_def list_all_iff)
  have w: "replace_runs isWhiteSpace [45] s = s"
    using slug_chars_no_space[OF chars] by (rule replace_runs_id)
  have h: "replace_runs isHyphen [45] s = s"
    using nd by (rule replace_hyphen_runs_id)
  have t: "trim s = s"
    using slug_chars_no_space[OF chars] by (rule trim_id)
  show ?thesis by (simp add: generateSlug_def lc f w h t)
qed

lemma asciiLower_fixes_slugs: "slug_chars t \<Longrightarrow> asciiLower t = t"
  by (induction t) (auto simp: slug_chars_def asciiLower_def isSlugLetter_def isHyphen_def)

text \<open>
  Claim C10. Slug generation is idempotent, and a generated slug consists of lowercase
  letters, digits and hyphens only, with no two hyphens in a row. The case mapping
  enters through one fact: it leaves a string of lowercase ASCII letters, digits and
  hyphens as it is.
\<close>

theorem generateSlug_idempotent:
  assumes "\<And>t. slug_chars t \<Longrightarrow> toLowerCase t = t"
  shows "generateSlug toLowerCase (generateSlug toLowerCase s) = generateSlug toLowerCase s
    \<and> slug_chars (generateSlug toLowerCase s)
    \<and> no_double_hyphen (generateSlug toLowerCase s)"
proof -
  let ?g = "generateSlug toLowerCase s"
  have c: "slug_chars ?g" by (rule generateSlug_chars)
  have n: "no_double_hyphen ?g" by (rule generateSlug_no_double)
  have "toLowerCase ?g = ?g" using c by (rule assms)
  then have "generateSlug toLowerCase ?g = ?g" using c n by (rule generateSlug_fixes_slugs)
  with c n show ?thesis by simp
qed

theorem generateSlug_idempotent_witness:
  "generateSlug asciiLower (js ''  Acme  Wealth -- Mgmt! '') = js ''-acme-wealth-mgmt-''
   \<and> generateSlug asciiLower (generateSlug asciiLower (js ''  Acme  Wealth -- Mgmt! ''))
       = generateSlug asciiLower (js ''  Acme  Wealth -- Mgmt! '')
   \<and> slug_chars (generateSlug asciiLower (js ''  Acme  Wealth -- Mgmt! ''))
   \<and> no_double_hyphen (generateSlug asciiLower (js ''  Acme  Wealth -- Mgmt! ''))"
proof -
  have v: "generateSlug asciiLower (js ''  Acme  Wealth -- Mgmt! '') = js ''-acme-wealth-mgmt-''"
    by (simp add: generateSlug_def asciiLower_def js_def trim_def isWhiteSpace_def
        isSlugLetter_def isHyphen_def)
  show ?thesis
    using generateSlug_idempotent [of asciiLower "js ''  Acme  Wealth -- Mgmt! ''",
        OF asciiLower_fixes_slugs] v
    by simp
qed

section \<open>Properties of the data-access layer\<close>

lemma js_inj [simp]: "js a = js b \<longleftrightarrow> a = b"
  unfolding js_def by (metis (no_types) list.inj_map_strong char_of_char)

lemma js_Nil [simp]: "js s = [] \<longleftrightarrow> s = []"
  by (simp add: js_def)

lemma fold_invalidateQueries:
  "fold invalidateQueries ks c =
     map (\<lambda>(k, inv). (k, inv \<or> (\<exists>f \<in> set ks. partialMatchKey k f))) c"
proof (induction ks arbitrary: c)
  case Nil
  show ?case by simp
next
  case (Cons f ks)
  have "fold invalidateQueries (f # ks) c = fold invalidateQueries ks (invalidateQueries f c)"
    by simp
  also have "\<dots> = map (\<lambda>(k, inv). (k, inv \<or> (\<exists>g \<in> set ks. partialMatchKey k g)))
      (invalidateQueries f c)"
    by (rule Cons.IH)
  also have "\<dots> = map (\<lambda>(k, inv). (k, inv \<or> (\<exists>g \<in> set (f # ks). partialMatchKey k g))) c"
    by (simp add: invalidateQueries_def case_prod_unfold disj_ac)
  finally show ?case .
qed

lemma mutateAsync_useMutation_success:
  assumes "remote (fn v) = Inr data"
  shows "mutateAsync (useMutation fn cb) remote v c =
     (Inr data,
      map (\<lambda>(k, inv). (k, inv \<or> (\<exists>f \<in> invalidates (useMutation fn cb). partialMatchKey k f))) c)"
proof (cases cb)
  case None
  then show ?thesis
    using assms
    by (simp add: mutateAsync_def useMutation_def run_callback_def invalidates_def
        case_prod_unfold)
next
  case (Some ks)
  then show ?thesis
    using assms
    by (simp add: mutateAsync_def useMutation_def run_callback_def invalidates_def
        fold_invalidateQueries)
qed

lemma mutateAsync_useMutation_failure:
  assumes "remote (fn v) = Inl err"
  shows "mutateAsync (useMutation fn cb) remote v c = (Inl err, c)"
  using assms by (simp add: mutateAsync_def useMutation_def run_callback_def)

lemma binding_options_form: "\<exists>fn cb. binding_options b = useMutation fn cb"
  by (cases b) auto

text \<open>The item queries that the hooks module declares lie under the key of their
  collection.\<close>

lemma hooks_item_keys_under_collection:
  "partialMatchKey (queryKey (useTenant i)) [js ''tenants'']"
  "partialMatchKey (queryKey (useUser i)) [js ''users'']"
  "partialMatchKey (queryKey useCurrentUser) [js ''users'']"
  "partialMatchKey (queryKey (useClient i e)) [js ''clients'']"
  "partialMatchKey (queryKey (useClientAccounts i)) [js ''clients'']"
  "partialMatchKey (queryKey (useClientDocuments i)) [js ''clients'']"
  by (simp_all add: useTenant_def useUser_def useCurrentUser_def useClient_def
      useClientAccounts_def useClientDocuments_def)

text \<open>
  Claim C1. The key of the collection is a prefix of the key of every query over one of
  its items; every query that fetches a tenant by its identifier has a key that starts
  with \<^verbatim>\<open>"tenants"\<close>. The hooks module keeps to this, the branding page does not: for
  tenant \<^verbatim>\<open>t1\<close> it performs the call of \<open>useTenant\<close> under the key
  \<^verbatim>\<open>["tenant", "t1"]\<close>, which the collection key \<^verbatim>\<open>["tenants"]\<close> does not match, and a
  successful update of that tenant invalidates the entry of \<open>useTenant\<close> and leaves the
  entry of the page as it was.
\<close>

theorem TenantBrandingPage_key_outside_tenants:
  "queryFn (TenantBrandingPage_query (js ''t1'')) = queryFn (useTenant (js ''t1''))
   \<and> queryKey (TenantBrandingPage_query (js ''t1'')) = [JStr (js ''tenant''), JStr (js ''t1'')]
   \<and> queryKey (useTenant (js ''t1'')) = [JStr (js ''tenants''), JStr (js ''t1'')]
   \<and> \<not> partialMatchKey (queryKey (TenantBrandingPage_query (js ''t1''))) [js ''tenants'']
   \<and> mutateAsync (binding_options (UseUpdateTenant (js ''t1''))) remote_ok JNull
         [(queryKey (TenantBrandingPage_query (js ''t1'')), False),
          (queryKey (useTenant (js ''t1'')), False)]
       = (Inr JNull,
          [(queryKey (TenantBrandingPage_query (js ''t1'')), False),
           (queryKey (useTenant (js ''t1'')), True)])"
  by (simp add: TenantBrandingPage_query_def useTenant_def mutateAsync_def useMutation_def
      run_callback_def invalidateQueries_def remote_ok_def)

text \<open>
  Claim C6. When the remote call of a mutation binding fails, the caller receives the
  error of the call as it is and the query cache is what it was before: no binding of
  the hooks module declares a callback that runs before the call, on its failure or on
  its settling, so invalidation happens after a successful call only.
\<close>

theorem failed_mutation_leaves_cache:
  assumes "remote (mutationFn (binding_options b) variables) = Inl err"
  shows "mutateAsync (binding_options b) remote variables c = (Inl err, c)
    \<and> onMutate (binding_options b) = None
    \<and> onError (binding_options b) = None
    \<and> onSettled (binding_options b) = None"
proof -
  obtain fn cb where f: "binding_options b = useMutation fn cb"
    using binding_options_form by blast
  have "remote (fn variables) = Inl err"
    using assms by (simp add: f useMutation_def)
  then have "mutateAsync (useMutation fn cb) remote variables c = (Inl err, c)"
    by (rule mutateAsync_useMutation_failure)
  then show ?thesis by (simp add: f) (simp add: useMutation_def)
qed

theorem failed_mutation_leaves_cache_witness:
  "remote_down (mutationFn (binding_options UseCreateTenant) (JObj [(''name'', JStr (js ''Acme''))]))
     = Inl (JError [(''message'', JStr (js ''Network error''))])
   \<and> mutateAsync (binding_options UseCreateTenant) remote_down
        (JObj [(''name'', JStr (js ''Acme''))])
        [(queryKey (useTenants JUndefined), False), (queryKey (useTenant (js ''t1'')), False)]
      = (Inl (JError [(''message'', JStr (js ''Network error''))]),
         [(queryKey (useTenants JUndefined), False), (queryKey (useTenant (js ''t1'')), False)])"
proof -
  have h: "remote_down (mutationFn (binding_options UseCreateTenant)
              (JObj [(''name'', JStr (js ''Acme''))]))
     = Inl (JError [(''message'', JStr (js ''Network error''))])"
    by (simp add: remote_down_def)
  show ?thesis
    using failed_mutation_leaves_cache
      [where remote = remote_down and b = UseCreateTenant
         and variables = "JObj [(''name'', JStr (js ''Acme''))]", OF h] h
    by simp
qed

lemma invalidates_useMutation [simp]:
  "invalidates (useMutation fn cb) = (case cb of None \<Rightarrow> {} | Some ks \<Rightarrow> set ks)"
  by (simp add: invalidates_def useMutation_def)

lemma collectionKey_useMutation [simp]:
  "collectionKey (useMutation fn cb) = [js (resource (fn JUndefined))]"
  by (simp add: collectionKey_def useMutation_def)

lemma mutationFn_useMutation [simp]: "mutationFn (useMutation fn cb) = fn"
  by (simp add: useMutation_def)

lemma binding_success:
  assumes "remote (mutationFn (binding_options b) variables) = Inr data"
  shows "mutateAsync (binding_options b) remote variables c =
     (Inr data,
      map (\<lambda>(k, inv). (k, inv \<or> (\<exists>f \<in> invalidates (binding_options b). partialMatchKey k f))) c)"
proof -
  obtain fn cb where f: "binding_options b = useMutation fn cb"
    using binding_options_form by blast
  have "remote (fn variables) = Inr data"
    using assms by (simp add: f)
  then show ?thesis
    unfolding f by (rule mutateAsync_useMutation_success)
qed

lemma binding_collection:
  "(\<forall>i. b \<noteq> UseChangePassword i) \<Longrightarrow>
     collectionKey (binding_options b) \<in> invalidates (binding_options b)"
  by (cases b) simp_all

lemma binding_update:
  "mutationFn (binding_options b) variables = ApiCall r ''update'' [JStr i, d] \<Longrightarrow>
     [js r, i] \<in> invalidates (binding_options b)"
  by (cases b) auto

lemma binding_client_stats:
  "mutationFn (binding_options b) variables = ApiCall ''clients'' m as \<Longrightarrow>
   m = ''create'' \<or> m = ''delete'' \<Longrightarrow>
     [js ''stats''] \<in> invalidates (binding_options b)"
  by (cases b) auto

text \<open>
  Claim C5, as amended. A successful mutation invalidates the cache entries matched by
  the filter keys its binding declares, and no other entry. Every binding but the
  change of a password declares the key of its collection; the change of a password
  declares nothing. An update declares the key of the item as well. Creating and
  deleting a client or a product declares the statistics key as well; updating a client
  or a product declares the collection key and the item key only.
\<close>

theorem successful_mutation_invalidates_declared_keys:
  "(remote (mutationFn (binding_options b) variables) = Inr data \<longrightarrow>
      mutateAsync (binding_options b) remote variables c =
        (Inr data,
         map (\<lambda>(k, inv).
                (k, inv \<or> (\<exists>f \<in> invalidates (binding_options b). partialMatchKey k f))) c))
   \<and> ((\<forall>i. b \<noteq> UseChangePassword i) \<longrightarrow>
        collectionKey (binding_options b) \<in> invalidates (binding_options b))
   \<and> invalidates (binding_options (UseChangePassword i)) = {}
   \<and> (mutationFn (binding_options b) variables = ApiCall r ''update'' [JStr i, d] \<longrightarrow>
        [js r, i] \<in> invalidates (binding_options b))
   \<and> (mutationFn (binding_options b) variables = ApiCall ''clients'' m as
        \<and> (m = ''create'' \<or> m = ''delete'') \<longrightarrow>
        [js ''stats''] \<in> invalidates (binding_options b))
   \<and> invalidates (binding_options (UseUpdateClient i)) = {[js ''clients''], [js ''clients'', i]}
   \<and> [js ''stats''] \<notin> invalidates (binding_options (UseUpdateClient i))
   \<and> invalidates useCreateProduct = {[js ''products''], [js ''stats'']}
   \<and> invalidates useDeleteProduct = {[js ''products''], [js ''stats'']}
   \<and> invalidates (useUpdateProduct i) = {[js ''products''], [js ''products'', i]}
   \<and> [js ''stats''] \<notin> invalidates (useUpdateProduct i)"
proof -
  have 1: "remote (mutationFn (binding_options b) variables) = Inr data \<longrightarrow>
      mutateAsync (binding_options b) remote variables c =
        (Inr data,
         map (\<lambda>(k, inv).
                (k, inv \<or> (\<exists>f \<in> invalidates (binding_options b). partialMatchKey k f))) c)"
    using binding_success by blast
  have 2: "(\<forall>i. b \<noteq> UseChangePassword i) \<longrightarrow>
        collectionKey (binding_options b) \<in> invalidates (binding_options b)"
    using binding_collection by blast
  have 3: "invalidates (binding_options (UseChangePassword i)) = {}" by simp
  have 4: "mutationFn (binding_options b) variables = ApiCall r ''update'' [JStr i, d] \<longrightarrow>
        [js r, i] \<in> invalidates (binding_options b)"
    using binding_update by blast
  have 5: "mutationFn (binding_options b) variables = ApiCall ''clients'' m as
        \<and> (m = ''create'' \<or> m = ''delete'') \<longrightarrow>
        [js ''stats''] \<in> invalidates (binding_options b)"
    using binding_client_stats by blast
  have 6: "invalidates (binding_options (UseUpdateClient i)) = {[js ''clients''], [js ''clients'', i]}"
    by simp
  have 7: "[js ''stats''] \<notin> invalidates (binding_options (UseUpdateClient i))" by simp
  have 8: "invalidates useCreateProduct = {[js ''products''], [js ''stats'']}"
    by (simp add: useCreateProduct_def)
  have 9: "invalidates useDeleteProduct = {[js ''products''], [js ''stats'']}"
    by (simp add: useDeleteProduct_def)
  have 10: "invalidates (useUpdateProduct i) = {[js ''products''], [js ''products'', i]}"
    by (simp add: useUpdateProduct_def)
  have 11: "[js ''stats''] \<notin> invalidates (useUpdateProduct i)"
    by (simp add: useUpdateProduct_def)
  from 1 2 3 4 5 6 7 8 9 10 11 show ?thesis by blast
qed

text \<open>Claim C5 as stated fails for the binding that changes a password: its call
  addresses the users resource and succeeds, and the entry under the key of the users
  collection is not invalidated.\<close>

theorem useChangePassword_invalidates_nothing:
  "resource (mutationFn (binding_options (UseChangePassword (js ''u1''))) JNull) = ''users''
   \<and> mutateAsync (binding_options (UseChangePassword (js ''u1''))) remote_ok JNull
        [(queryKey (useUsers JUndefined), False), (queryKey (useUser (js ''u1'')), False)]
      = (Inr JNull,
         [(queryKey (useUsers JUndefined), False), (queryKey (useUser (js ''u1'')), False)])
   \<and> partialMatchKey (queryKey (useUsers JUndefined)) [js ''users'']"
  by (simp add: mutateAsync_def useMutation_def run_callback_def remote_ok_def useUsers_def)

theorem successful_mutation_invalidates_declared_keys_witness:
  "remote_ok (mutationFn (binding_options UseCreateClient) JNull) = Inr JNull
   \<and> mutationFn (binding_options UseCreateClient) JNull = ApiCall ''clients'' ''create'' [JNull]
   \<and> mutateAsync (binding_options UseCreateClient) remote_ok JNull
        [(queryKey (useClients JUndefined), False), (queryKey useDashboardStats, False),
         (queryKey (useTenants JUndefined), False)]
      = (Inr JNull,
         [(queryKey (useClients JUndefined), True), (queryKey useDashboardStats, True),
          (queryKey (useTenants JUndefined), False)])
   \<and> collectionKey (binding_options UseCreateClient) \<in> invalidates (binding_options UseCreateClient)
   \<and> [js ''stats''] \<in> invalidates (binding_options UseCreateClient)
   \<and> mutationFn (binding_options (UseUpdateClient (js ''c1''))) JNull
        = ApiCall ''clients'' ''update'' [JStr (js ''c1''), JNull]
   \<and> [js ''clients'', js ''c1''] \<in> invalidates (binding_options (UseUpdateClient (js ''c1'')))"
proof -
  have h: "remote_ok (mutationFn (binding_options UseCreateClient) JNull) = Inr JNull"
    by (simp add: remote_ok_def)
  have f: "mutationFn (binding_options UseCreateClient) JNull = ApiCall ''clients'' ''create'' [JNull]"
    by simp
  have u: "mutationFn (binding_options (UseUpdateClient (js ''c1''))) JNull
        = ApiCall ''clients'' ''update'' [JStr (js ''c1''), JNull]"
    by simp
  have n: "\<forall>i. UseCreateClient \<noteq> UseChangePassword i" by simp
  note t = successful_mutation_invalidates_declared_keys
      [where remote = remote_ok and b = UseCreateClient and variables = JNull and data = JNull
         and m = "''create''" and as = "[JNull]"
         and c = "[(queryKey (useClients JUndefined), False), (queryKey useDashboardStats, False),
         (queryKey (useTenants JUndefined), False)]"]
  note t2 = successful_mutation_invalidates_declared_keys
      [where b = "UseUpdateClient (js ''c1'')" and variables = JNull and r = "''clients''"
         and i = "js ''c1''" and d = JNull]
  have a: "mutateAsync (binding_options UseCreateClient) remote_ok JNull
        [(queryKey (useClients JUndefined), False), (queryKey useDashboardStats, False),
         (queryKey (useTenants JUndefined), False)]
      = (Inr JNull,
         [(queryKey (useClients JUndefined), True), (queryKey useDashboardStats, True),
          (queryKey (useTenants JUndefined), False)])"
    using t h by (simp add: useClients_def useDashboardStats_def useTenants_def)
  have b: "collectionKey (binding_options UseCreateClient) \<in> invalidates (binding_options UseCreateClient)"
    using t n by blast
  have c: "[js ''stats''] \<in> invalidates (binding_options UseCreateClient)"
    using t f by blast
  have d: "[js ''clients'', js ''c1''] \<in> invalidates (binding_options (UseUpdateClient (js ''c1'')))"
    using t2 u by blast
  from h f a b c d u show ?thesis by blast
qed

section \<open>Properties of the tenant deletion dialog\<close>

text \<open>
  Claim C2, as amended. In the permanent rendering the action is enabled exactly when no
  deletion is in flight and the typed text equals the slug of the tenant, code unit for
  code unit: no trimming, no case folding. Text that differs keeps it disabled, as the
  slug followed by a space and every proper prefix of the slug do, and then the handler
  returns without calling the mutation; with the slug typed, the handler calls the
  permanent deletion.
\<close>

theorem permanent_delete_gate:
  "(\<not> permanentDeleteDisabled st tn \<longleftrightarrow> \<not> isDeleting st \<and> confirmText st = slug tn)
   \<and> (confirmText st \<noteq> slug tn \<longrightarrow>
        permanentDeleteDisabled st tn
        \<and> handleDelete mutate Permanent (Some tn) st = (st, []))
   \<and> (confirmText st = slug tn \<longrightarrow>
        hd (snd (handleDelete mutate Permanent (Some tn) st))
          = Mutate UseDeleteTenantPermanent (JStr (tenant_ident tn)))
   \<and> permanentDeleteDisabled (setConfirmText (slug tn @ js '' '') st) tn
   \<and> (n < length (slug tn) \<longrightarrow> permanentDeleteDisabled (setConfirmText (take n (slug tn)) st) tn)"
proof -
  have "take n (slug tn) \<noteq> slug tn" if "n < length (slug tn)"
    using that by (metis length_take min.absorb4 nat_less_le) 
  then show ?thesis
    by (auto simp: permanentDeleteDisabled_def handleDelete_def handleDelete_start_def
        handleDelete_settle_def setConfirmText_def js_def split: sum.splits)
qed

text \<open>Claim C2 as stated fails while a deletion is in flight: with the slug typed, the
  handler starts the call, and in the state it leaves while the call is pending the
  typed text equals the slug and the action is disabled.\<close>

theorem permanent_delete_disabled_while_deleting:
  "handleDelete_start Permanent (Some acme) \<lparr>isDeleting = False, confirmText = js ''acme-wealth''\<rparr>
     = Some (\<lparr>isDeleting = True, confirmText = js ''acme-wealth''\<rparr>,
             UseDeleteTenantPermanent, JStr (js ''t1''))
   \<and> confirmText \<lparr>isDeleting = True, confirmText = js ''acme-wealth''\<rparr> = slug acme
   \<and> permanentDeleteDisabled \<lparr>isDeleting = True, confirmText = js ''acme-wealth''\<rparr> acme"
  by (simp add: permanentDeleteDisabled_def handleDelete_start_def acme_def)

theorem permanent_delete_gate_witness:
  "\<not> permanentDeleteDisabled \<lparr>isDeleting = False, confirmText = js ''acme-wealth''\<rparr> acme
   \<and> permanentDeleteDisabled \<lparr>isDeleting = False, confirmText = js ''acme-wealth ''\<rparr> acme
   \<and> permanentDeleteDisabled \<lparr>isDeleting = False, confirmText = js ''acme''\<rparr> acme
   \<and> permanentDeleteDisabled \<lparr>isDeleting = False, confirmText = js ''Acme-Wealth''\<rparr> acme
   \<and> handleDelete (\<lambda>b v. remote_ok (mutationFn (binding_options b) v)) Permanent (Some acme)
        \<lparr>isDeleting = False, confirmText = js ''Acme-Wealth''\<rparr>
      = (\<lparr>isDeleting = False, confirmText = js ''Acme-Wealth''\<rparr>, [])
   \<and> hd (snd (handleDelete (\<lambda>b v. remote_ok (mutationFn (binding_options b) v)) Permanent
        (Some acme) \<lparr>isDeleting = False, confirmText = js ''acme-wealth''\<rparr>))
      = Mutate UseDeleteTenantPermanent (JStr (js ''t1''))"
proof -
  let ?m = "\<lambda>b v. remote_ok (mutationFn (binding_options b) v)"
  note g = permanent_delete_gate [where tn = acme and mutate = ?m]
  have 1: "\<not> permanentDeleteDisabled \<lparr>isDeleting = False, confirmText = js ''acme-wealth''\<rparr> acme"
    using g [where st = "\<lparr>isDeleting = False, confirmText = js ''acme-wealth''\<rparr>"]
    by (simp add: acme_def)
  have 2: "permanentDeleteDisabled \<lparr>isDeleting = False, confirmText = js ''acme-wealth ''\<rparr> acme"
    using g [where st = "\<lparr>isDeleting = False, confirmText = js ''acme-wealth ''\<rparr>"]
    by (simp add: acme_def)
  have 3: "permanentDeleteDisabled \<lparr>isDeleting = False, confirmText = js ''acme''\<rparr> acme"
    using g [where st = "\<lparr>isDeleting = False, confirmText = js ''acme''\<rparr>"]
    by (simp add: acme_def)
  have 4: "permanentDeleteDisabled \<lparr>isDeleting = False, confirmText = js ''Acme-Wealth''\<rparr> acme
    \<and> handleDelete ?m Permanent (Some acme)
        \<lparr>isDeleting = False, confirmText = js ''Acme-Wealth''\<rparr>
      = (\<lparr>isDeleting = False, confirmText = js ''Acme-Wealth''\<rparr>, [])"
    using g [where st = "\<lparr>isDeleting = False, confirmText = js ''Acme-Wealth''\<rparr>"]
    by (simp add: acme_def)
  have 5: "hd (snd (handleDelete ?m Permanent
        (Some acme) \<lparr>isDeleting = False, confirmText = js ''acme-wealth''\<rparr>))
      = Mutate UseDeleteTenantPermanent (JStr (js ''t1''))"
    using g [where st = "\<lparr>isDeleting = False, confirmText = js ''acme-wealth''\<rparr>"]
    by (simp add: acme_def)
  from 1 2 3 4 5 show ?thesis by blast
qed

section \<open>Properties of the client dialog\<close>

text \<open>
  Claim C7, as amended. The message shown for a failed call is, in this order of
  priority: the message of an Error instance; the error itself when it is a string; a
  truthy \<^verbatim>\<open>message\<close> field; a truthy \<^verbatim>\<open>detail\<close> field, as it is when a string and
  JSON-encoded otherwise; the fallback literal. So an error object with a truthy
  \<^verbatim>\<open>message\<close> shows it, whatever \<^verbatim>\<open>detail\<close> it carries.
\<close>

theorem ClientDialog_errorMessage_order:
  "(instanceofError e \<longrightarrow> ClientDialog_errorMessage f e = get_prop e ''message'')
   \<and> (isString e \<longrightarrow> ClientDialog_errorMessage f e = e)
   \<and> (\<not> instanceofError e \<and> \<not> isString e \<and> truthy (get_prop e ''message'') \<longrightarrow>
        ClientDialog_errorMessage f e = get_prop e ''message'')
   \<and> (\<not> instanceofError e \<and> \<not> isString e \<and> \<not> truthy (get_prop e ''message'')
        \<and> truthy (get_prop e ''detail'') \<longrightarrow>
        ClientDialog_errorMessage f e =
          (if isString (get_prop e ''detail'') then get_prop e ''detail''
           else f (get_prop e ''detail'')))
   \<and> (\<not> instanceofError e \<and> \<not> isString e \<and> \<not> truthy (get_prop e ''message'')
        \<and> \<not> truthy (get_prop e ''detail'') \<longrightarrow>
        ClientDialog_errorMessage f e = fallbackMessage)"
  by (cases e) (simp_all add: ClientDialog_errorMessage_def)

text \<open>Claim C7 as stated fails for an object with both fields, plain or an Error
  instance: the text shown is that of \<^verbatim>\<open>message\<close>, not that of \<^verbatim>\<open>detail\<close>.\<close>

theorem message_field_shadows_detail:
  "get_prop (JObj [(''detail'', JStr (js ''Email already registered'')),
                   (''message'', JStr (js ''Request failed''))]) ''detail''
     = JStr (js ''Email already registered'')
   \<and> ClientDialog_errorMessage stringify_literal
       (JObj [(''detail'', JStr (js ''Email already registered'')),
              (''message'', JStr (js ''Request failed''))])
     = JStr (js ''Request failed'')
   \<and> ClientDialog_errorMessage stringify_literal
       (JError [(''message'', JStr (js ''Request failed'')),
                (''detail'', JStr (js ''Email already registered''))])
     = JStr (js ''Request failed'')"
  by (simp add: ClientDialog_errorMessage_def js_def)


theorem ClientDialog_errorMessage_order_witness:
  "ClientDialog_errorMessage stringify_literal
      (JObj [(''detail'', JStr (js ''Email already registered''))])
     = JStr (js ''Email already registered'')
   \<and> ClientDialog_errorMessage stringify_literal (JObj [(''detail'', JBool True)])
     = JStr (js ''true'')
   \<and> ClientDialog_errorMessage stringify_literal
      (JObj [(''message'', JStr (js ''Request failed'')), (''detail'', JStr (js ''Conflict''))])
     = JStr (js ''Request failed'')
   \<and> ClientDialog_errorMessage stringify_literal (JError [(''detail'', JStr (js ''Conflict''))])
     = JStr []
   \<and> ClientDialog_errorMessage stringify_literal (JStr (js ''timeout'')) = JStr (js ''timeout'')
   \<and> ClientDialog_errorMessage stringify_literal JNull = fallbackMessage"
proof -
  note t = ClientDialog_errorMessage_order [where f = stringify_literal]
  have 1: "ClientDialog_errorMessage stringify_literal
      (JObj [(''detail'', JStr (js ''Email already registered''))])
     = JStr (js ''Email already registered'')"
    using t [where e = "JObj [(''detail'', JStr (js ''Email already registered''))]"]
    by (simp add: js_def)
  have 2: "ClientDialog_errorMessage stringify_literal (JObj [(''detail'', JBool True)])
     = JStr (js ''true'')"
    using t [where e = "JObj [(''detail'', JBool True)]"] by simp
  have 3: "ClientDialog_errorMessage stringify_literal
      (JObj [(''message'', JStr (js ''Request failed'')), (''detail'', JStr (js ''Conflict''))])
     = JStr (js ''Request failed'')"
    using t [where e = "JObj [(''message'', JStr (js ''Request failed'')),
        (''detail'', JStr (js ''Conflict''))]"]
    by (simp add: js_def)
  have 4: "ClientDialog_errorMessage stringify_literal (JError [(''detail'', JStr (js ''Conflict''))])
     = JStr []"
    using t [where e = "JError [(''detail'', JStr (js ''Conflict''))]"] by simp
  have 5: "ClientDialog_errorMessage stringify_literal (JStr (js ''timeout'')) = JStr (js ''timeout'')"
    using t [where e = "JStr (js ''timeout'')"] by simp
  have 6: "ClientDialog_errorMessage stringify_literal JNull = fallbackMessage"
    using t [where e = JNull] by simp
  from 1 2 3 4 5 6 show ?thesis by simp
qed


section \<open>Properties of the client form: normalisation\<close>

lemma dropWhile_self: "s = [] \<or> \<not> p (hd s) \<Longrightarrow> dropWhile p s = s"
  by (cases s) auto

lemma trim_no_leading: "trim s \<noteq> [] \<Longrightarrow> \<not> isWhiteSpace (hd (trim s))"
proof -
  assume ne: "trim s \<noteq> []"
  let ?a = "dropWhile isWhiteSpace s"
  let ?b = "dropWhile isWhiteSpace (rev ?a)"
  have t: "trim s = rev ?b" by (simp add: trim_def)
  have "rev ?a = takeWhile isWhiteSpace (rev ?a) @ ?b" by simp
  then have "?a = rev ?b @ rev (takeWhile isWhiteSpace (rev ?a))"
    by (metis rev_append rev_rev_ident)
  moreover have "rev ?b \<noteq> []" using ne t by simp
  ultimately have "hd ?a = hd (rev ?b)" "?a \<noteq> []"
    by (metis hd_append2, metis append_is_Nil_conv)
  moreover have "\<not> isWhiteSpace (hd ?a)" using \<open>?a \<noteq> []\<close> by (simp add: hd_dropWhile)
  ultimately show ?thesis using t by simp
qed

lemma trim_trim: "trim (trim s) = trim s"
proof -
  let ?b = "dropWhile isWhiteSpace (rev (dropWhile isWhiteSpace s))"
  have t: "trim s = rev ?b" by (simp add: trim_def)
  have 1: "dropWhile isWhiteSpace (trim s) = trim s"
    using trim_no_leading by (intro dropWhile_self) blast
  have 2: "dropWhile isWhiteSpace ?b = ?b" by (rule dropWhile_idem)
  have "trim (trim s) = rev (dropWhile isWhiteSpace (rev (trim s)))"
    using 1 by (simp add: trim_def)
  also have "\<dots> = rev (dropWhile isWhiteSpace ?b)" by (simp add: t)
  also have "\<dots> = trim s" using 2 t by simp
  finally show ?thesis .
qed

lemma putTrimmed_other: "k' \<noteq> k \<Longrightarrow> putTrimmed k v m k' = m k'"
  by (simp add: putTrimmed_def split: option.splits)

lemma putTrimmed_fresh:
  "m k = None \<Longrightarrow>
   putTrimmed k v m k =
     (case v of None \<Rightarrow> None | Some s \<Rightarrow> if trim s = [] then None else Some (JStr (trim s)))"
  by (simp add: putTrimmed_def split: option.splits)

lemma putIfDefined_other: "k' \<noteq> k \<Longrightarrow> putIfDefined k v m k' = m k'"
  by (simp add: putIfDefined_def split: option.splits)

lemma putParsed_other: "k' \<noteq> k \<Longrightarrow> putParsed p k v m k' = m k'"
  by (simp add: putParsed_def split: option.splits)

lemma putParsed_fresh:
  "m k = None \<Longrightarrow>
   putParsed p k v m k =
     (case v of None \<Rightarrow> None | Some s \<Rightarrow> if trim s = [] then None else p s)"
  by (simp add: putParsed_def split: option.splits)

lemma putParsed_None: "putParsed p k None m = m"
  by (simp add: putParsed_def)

lemmas put_other = putTrimmed_other putIfDefined_other putParsed_other

lemma handleSubmit_split:
  "ClientForm_handleSubmit p d =
     putParsed p ''extra_data'' (extra_data d) (ClientForm_handleSubmit p (d\<lparr>extra_data := None\<rparr>))"
  by (simp add: ClientForm_handleSubmit_def putParsed_None)

lemma handleSubmit_no_extra:
  "ClientForm_handleSubmit p (d\<lparr>extra_data := None\<rparr>) ''extra_data'' = None"
  by (simp add: ClientForm_handleSubmit_def putParsed_None put_other)

lemma handleSubmit_extra:
  "ClientForm_handleSubmit p d ''extra_data'' =
     (case extra_data d of None \<Rightarrow> None | Some s \<Rightarrow> if trim s = [] then None else p s)"
  by (subst handleSubmit_split) (simp add: putParsed_fresh handleSubmit_no_extra)

lemma handleSubmit_frame:
  "k \<noteq> ''extra_data'' \<Longrightarrow>
   ClientForm_handleSubmit p d k = ClientForm_handleSubmit p (d\<lparr>extra_data := None\<rparr>) k"
  by (subst handleSubmit_split) (simp add: putParsed_other)

lemma handleSubmit_type:
  "ClientForm_handleSubmit p d ''client_type'' = Some (JStr (clientTypes (client_type d)))"
  by (simp add: ClientForm_handleSubmit_def put_other)

lemma handleSubmit_first_name:
  "ClientForm_handleSubmit p d ''first_name'' =
     (case first_name d of
        None \<Rightarrow> None
      | Some s \<Rightarrow> if trim s = [] then None else Some (JStr (trim s)))"
  by (simp add: ClientForm_handleSubmit_def put_other putTrimmed_fresh)

lemma handleSubmit_last_name:
  "ClientForm_handleSubmit p d ''last_name'' =
     (case last_name d of
        None \<Rightarrow> None
      | Some s \<Rightarrow> if trim s = [] then None else Some (JStr (trim s)))"
  by (simp add: ClientForm_handleSubmit_def put_other putTrimmed_fresh)

lemma handleSubmit_entity_name:
  "ClientForm_handleSubmit p d ''entity_name'' =
     (case entity_name d of
        None \<Rightarrow> None
      | Some s \<Rightarrow> if trim s = [] then None else Some (JStr (trim s)))"
  by (simp add: ClientForm_handleSubmit_def put_other putTrimmed_fresh)

lemma handleSubmit_email:
  "ClientForm_handleSubmit p d ''email'' =
     (case email d of
        None \<Rightarrow> None
      | Some s \<Rightarrow> if trim s = [] then None else Some (JStr (trim s)))"
  by (simp add: ClientForm_handleSubmit_def put_other putTrimmed_fresh)

lemma handleSubmit_phone:
  "ClientForm_handleSubmit p d ''phone'' =
     (case phone d of
        None \<Rightarrow> None
      | Some s \<Rightarrow> if trim s = [] then None else Some (JStr (trim s)))"
  by (simp add: ClientForm_handleSubmit_def put_other putTrimmed_fresh)


lemma isTrimmedString_trimmedOrOmitted: "isTrimmedString (trimmedOrOmitted v)"
  by (simp add: isTrimmedString_def trimmedOrOmitted_def trim_trim split: option.splits)

lemma handleSubmit_text:
  "list_all (\<lambda>(k, field). ClientForm_handleSubmit p d k = trimmedOrOmitted (field d)) textFields"
  unfolding textFields_def trimmedOrOmitted_def
  by (simp add: handleSubmit_first_name handleSubmit_last_name handleSubmit_entity_name
      handleSubmit_email handleSubmit_phone)

lemma enum_strings_trimmed:
  "trim (clientTypes t) = clientTypes t" "clientTypes t \<noteq> []"
  "trim (riskProfiles r) = riskProfiles r" "riskProfiles r \<noteq> []"
  "trim (kycStatuses s) = kycStatuses s" "kycStatuses s \<noteq> []"
proof -
  show "trim (clientTypes t) = clientTypes t"
    by (cases t) (simp_all add: trim_def js_def isWhiteSpace_def)
  show "clientTypes t \<noteq> []" by (cases t) simp_all
  show "trim (riskProfiles r) = riskProfiles r"
    by (cases r) (simp_all add: trim_def js_def isWhiteSpace_def)
  show "riskProfiles r \<noteq> []" by (cases r) simp_all
  show "trim (kycStatuses s) = kycStatuses s"
    by (cases s) (simp_all add: trim_def js_def isWhiteSpace_def)
  show "kycStatuses s \<noteq> []" by (cases s) simp_all
qed

lemma putIfDefined_fresh:
  "m k = None \<Longrightarrow> putIfDefined k v m k = map_option JStr v"
  by (simp add: putIfDefined_def split: option.splits)

lemma handleSubmit_risk_profile:
  "ClientForm_handleSubmit p d ''risk_profile'' =
     map_option (\<lambda>r. JStr (riskProfiles r)) (risk_profile d)"
  by (simp add: ClientForm_handleSubmit_def put_other putIfDefined_fresh option.map_comp comp_def)

lemma handleSubmit_kyc_status:
  "ClientForm_handleSubmit p d ''kyc_status'' =
     map_option (\<lambda>s. JStr (kycStatuses s)) (kyc_status d)"
  by (simp add: ClientForm_handleSubmit_def put_other putIfDefined_fresh option.map_comp comp_def)

lemma handleSubmit_enums_trimmed:
  "isTrimmedString (ClientForm_handleSubmit p d ''client_type'')"
  "isTrimmedString (ClientForm_handleSubmit p d ''risk_profile'')"
  "isTrimmedString (ClientForm_handleSubmit p d ''kyc_status'')"
  by (simp_all add: handleSubmit_type handleSubmit_risk_profile handleSubmit_kyc_status
      isTrimmedString_def enum_strings_trimmed split: option.splits)

text \<open>
  Claim C9. The payload handed to the submit callback: the client type as it is; each
  optional text field trimmed, and left out when nothing remains after trimming, so
  that a text value in the payload is a trimmed, non-empty string; the risk profile and
  the KYC status as they are when chosen, left out otherwise, and these enumeration
  values are trimmed strings as well; \<^verbatim>\<open>extra_data\<close> left
  out when blank, the parsed value when the text parses, left out when it does not,
  and in each case every other key is what it is for the form without \<^verbatim>\<open>extra_data\<close>.
\<close>

theorem ClientForm_handleSubmit_normalizes:
  "ClientForm_handleSubmit p d ''client_type'' = Some (JStr (clientTypes (client_type d)))
   \<and> list_all (\<lambda>(k, field). ClientForm_handleSubmit p d k = trimmedOrOmitted (field d)) textFields
   \<and> list_all (\<lambda>(k, field). isTrimmedString (ClientForm_handleSubmit p d k)) textFields
   \<and> ClientForm_handleSubmit p d ''risk_profile'' =
        map_option (\<lambda>r. JStr (riskProfiles r)) (risk_profile d)
   \<and> ClientForm_handleSubmit p d ''kyc_status'' =
        map_option (\<lambda>s. JStr (kycStatuses s)) (kyc_status d)
   \<and> isTrimmedString (ClientForm_handleSubmit p d ''client_type'')
   \<and> isTrimmedString (ClientForm_handleSubmit p d ''risk_profile'')
   \<and> isTrimmedString (ClientForm_handleSubmit p d ''kyc_status'')
   \<and> ClientForm_handleSubmit p d ''extra_data'' =
        (case extra_data d of
           None \<Rightarrow> None
         | Some s \<Rightarrow> if trim s = [] then None else p s)
   \<and> (k \<noteq> ''extra_data'' \<longrightarrow>
        ClientForm_handleSubmit p d k = ClientForm_handleSubmit p (d\<lparr>extra_data := None\<rparr>) k)"
proof -
  have a: "list_all (\<lambda>(k, field). ClientForm_handleSubmit p d k = trimmedOrOmitted (field d)) textFields"
    by (rule handleSubmit_text)
  then have b: "list_all (\<lambda>(k, field). isTrimmedString (ClientForm_handleSubmit p d k)) textFields"
    by (rule list.pred_mono_strong) (auto simp: isTrimmedString_trimmedOrOmitted)
  have c: "k \<noteq> ''extra_data'' \<longrightarrow>
        ClientForm_handleSubmit p d k = ClientForm_handleSubmit p (d\<lparr>extra_data := None\<rparr>) k"
    using handleSubmit_frame by blast
  show ?thesis
    by (intro conjI)
      (rule handleSubmit_type, rule a, rule b, rule handleSubmit_risk_profile,
       rule handleSubmit_kyc_status, rule handleSubmit_enums_trimmed,
       rule handleSubmit_enums_trimmed, rule handleSubmit_enums_trimmed,
       rule handleSubmit_extra, rule c)
qed


lemma trim_examples:
  "trim (js ''  Ada '') = js ''Ada''" "trim (js ''Lovelace'') = js ''Lovelace''"
  "trim (js '' '') = []" "trim [] = []" "trim (js ''{oops'') = js ''{oops''"
  "trim (js ''true'') = js ''true''"
  by (simp_all add: trim_def js_def isWhiteSpace_def)

theorem ClientForm_handleSubmit_normalizes_witness:
  "ClientForm_handleSubmit parse_literal walkin ''first_name'' = Some (JStr (js ''Ada''))
   \<and> ClientForm_handleSubmit parse_literal walkin ''last_name'' = Some (JStr (js ''Lovelace''))
   \<and> ClientForm_handleSubmit parse_literal walkin ''entity_name'' = None
   \<and> ClientForm_handleSubmit parse_literal walkin ''email'' = None
   \<and> ClientForm_handleSubmit parse_literal walkin ''phone'' = None
   \<and> ClientForm_handleSubmit parse_literal walkin ''extra_data'' = None
   \<and> ClientForm_handleSubmit parse_literal (walkin\<lparr>extra_data := Some (js ''true'')\<rparr>) ''extra_data''
        = Some (JBool True)
   \<and> ClientForm_handleSubmit parse_literal walkin ''client_type'' = Some (JStr (js ''individual''))
   \<and> ClientForm_handleSubmit parse_literal walkin ''kyc_status''
        = ClientForm_handleSubmit parse_literal (walkin\<lparr>extra_data := None\<rparr>) ''kyc_status''"
proof -
  note t = ClientForm_handleSubmit_normalizes
    [where p = parse_literal and d = walkin and k = "''kyc_status''"]
  note u = ClientForm_handleSubmit_normalizes
    [where p = parse_literal and d = "walkin\<lparr>extra_data := Some (js ''true'')\<rparr>"
       and k = "''kyc_status''"]
  have f: "first_name walkin = Some (js ''  Ada '')" "last_name walkin = Some (js ''Lovelace'')"
    "entity_name walkin = Some []" "email walkin = Some (js '' '')" "phone walkin = None"
    "extra_data walkin = Some (js ''{oops'')" "client_type walkin = Individual"
    by (simp_all add: walkin_def)
  have p: "parse_literal (js ''{oops'') = None" "parse_literal (js ''true'') = Some (JBool True)"
    by (simp_all add: parse_literal_def)
  have n: "''kyc_status'' \<noteq> ''extra_data''" by simp
  from t have 1: "list_all (\<lambda>(k, field).
      ClientForm_handleSubmit parse_literal walkin k = trimmedOrOmitted (field walkin)) textFields"
    by (rule conjunct1 [OF conjunct2])
  from t have 2: "ClientForm_handleSubmit parse_literal walkin ''extra_data'' = None"
    by (simp add: f p trim_examples)
  from u have 3: "ClientForm_handleSubmit parse_literal (walkin\<lparr>extra_data := Some (js ''true'')\<rparr>)
      ''extra_data'' = Some (JBool True)"
    by (simp add: p trim_examples)
  from t have 4: "ClientForm_handleSubmit parse_literal walkin ''client_type''
      = Some (JStr (js ''individual''))"
    by (simp add: f)
  from t n have 5: "ClientForm_handleSubmit parse_literal walkin ''kyc_status''
        = ClientForm_handleSubmit parse_literal (walkin\<lparr>extra_data := None\<rparr>) ''kyc_status''"
    by blast
  from 1 have 6: "ClientForm_handleSubmit parse_literal walkin ''first_name'' = Some (JStr (js ''Ada''))
   \<and> ClientForm_handleSubmit parse_literal walkin ''last_name'' = Some (JStr (js ''Lovelace''))
   \<and> ClientForm_handleSubmit parse_literal walkin ''entity_name'' = None
   \<and> ClientForm_handleSubmit parse_literal walkin ''email'' = None
   \<and> ClientForm_handleSubmit parse_literal walkin ''phone'' = None"
    by (simp add: textFields_def trimmedOrOmitted_def f trim_examples)
  from 6 2 3 4 5 show ?thesis by simp
qed

section \<open>Properties of the client form: the change of the client type\<close>

text \<open>
  Claim C8. In create mode, a change of the client type to individual empties the entity
  name, and a change to entity or trust empties the first and the last name; the other
  group and every field outside the two groups stay as they were. So after the change
  from individual to another type and back, the entity name is empty, whatever was typed
  into it in between.
\<close>

theorem selectClientType_clears_other_group:
  assumes "t \<noteq> client_type st"
  shows "client_type (selectClientType Create t st) = t
    \<and> (t = Individual \<longrightarrow>
         entity_name (selectClientType Create t st) = Some []
         \<and> first_name (selectClientType Create t st) = first_name st
         \<and> last_name (selectClientType Create t st) = last_name st)
    \<and> (t \<noteq> Individual \<longrightarrow>
         first_name (selectClientType Create t st) = Some []
         \<and> last_name (selectClientType Create t st) = Some []
         \<and> entity_name (selectClientType Create t st) = entity_name st)
    \<and> email (selectClientType Create t st) = email st
    \<and> phone (selectClientType Create t st) = phone st
    \<and> risk_profile (selectClientType Create t st) = risk_profile st
    \<and> kyc_status (selectClientType Create t st) = kyc_status st
    \<and> extra_data (selectClientType Create t st) = extra_data st
    \<and> (client_type st = Individual \<longrightarrow>
         entity_name (selectClientType Create Individual
            ((selectClientType Create t st)\<lparr>entity_name := Some typed\<rparr>)) = Some [])"
  using assms by (auto simp: selectClientType_def clientTypeEffect_def)

theorem selectClientType_clears_other_group_witness:
  "Entity \<noteq> client_type walkin
   \<and> selectClientType Create Entity walkin
       = walkin\<lparr>client_type := Entity, first_name := Some [], last_name := Some []\<rparr>
   \<and> selectClientType Create Individual
        ((selectClientType Create Entity walkin)\<lparr>entity_name := Some (js ''Ada Ltd'')\<rparr>)
       = walkin\<lparr>first_name := Some [], last_name := Some [], entity_name := Some []\<rparr>"
proof -
  have h: "Entity \<noteq> client_type walkin" by (simp add: walkin_def)
  have e: "selectClientType Create Entity walkin
       = walkin\<lparr>client_type := Entity, first_name := Some [], last_name := Some []\<rparr>"
    using selectClientType_clears_other_group [OF h, where typed = "js ''Ada Ltd''"]
    by (simp add: walkin_def selectClientType_def clientTypeEffect_def)
  have i: "selectClientType Create Individual
        ((selectClientType Create Entity walkin)\<lparr>entity_name := Some (js ''Ada Ltd'')\<rparr>)
       = walkin\<lparr>first_name := Some [], last_name := Some [], entity_name := Some []\<rparr>"
    using selectClientType_clears_other_group [OF h, where typed = "js ''Ada Ltd''"]
    by (simp add: walkin_def selectClientType_def clientTypeEffect_def)
  from h e i show ?thesis by simp
qed


section \<open>Properties of the client schema\<close>

lemma client_email_issue_paths:
  "i \<in> set (zOrEmptyLiteral
       (zOptional (zString [''email''] (zEmail is_email [''email''] ''Invalid email''))) v)
   \<Longrightarrow> path i = [''email'']"
  by (auto simp: zOrEmptyLiteral_def zOptional_def zString_def zEmail_def
      split: option.splits if_splits)

lemma refinement_issue_path: "path refinement_issue = [''client_type'']"
  by (simp add: refinement_issue_def)

text \<open>
  Claim C3. A client form of type individual whose first or last name is missing or
  empty, and a form of type entity or trust whose entity name is missing or empty, fails
  validation, so nothing is submitted; the issue of the cross-field rule is among the
  issues, it is attached to the path \<^verbatim>\<open>client_type\<close>, and no issue is attached to the
  path of a name field.
\<close>

theorem clientSchema_cross_field_issue:
  assumes "client_type d = Individual
             \<and> (first_name d \<in> {None, Some []} \<or> last_name d \<in> {None, Some []})
           \<or> client_type d \<noteq> Individual \<and> entity_name d \<in> {None, Some []}"
  shows "\<exists>issues. clientSchema is_email d = Inl issues
           \<and> ClientForm_submit is_email p d = Inl issues
           \<and> refinement_issue \<in> set issues
           \<and> path refinement_issue = [''client_type'']
           \<and> (\<forall>i \<in> set issues. path i \<noteq> [''first_name''] \<and> path i \<noteq> [''last_name'']
                  \<and> path i \<noteq> [''entity_name''])"
proof -
  let ?e = "zOrEmptyLiteral
       (zOptional (zString [''email''] (zEmail is_email [''email''] ''Invalid email''))) (email d)"
  let ?issues = "?e @ [refinement_issue]"
  have r: "\<not> clientSchema_refinement d"
    using assms by (auto simp: clientSchema_refinement_def truthyStr_def)
  then have s: "clientSchema is_email d = Inl ?issues"
    by (simp add: clientSchema_def)
  then have t: "ClientForm_submit is_email p d = Inl ?issues"
    by (simp add: ClientForm_submit_def)
  have q: "path i \<noteq> [''first_name''] \<and> path i \<noteq> [''last_name''] \<and> path i \<noteq> [''entity_name'']"
    if "i \<in> set ?issues" for i
  proof (cases "i = refinement_issue")
    case True
    then show ?thesis by (simp add: refinement_issue_path)
  next
    case False
    with that have "i \<in> set ?e" by simp
    then have "path i = [''email'']" by (rule client_email_issue_paths)
    then show ?thesis by simp
  qed
  from s t q show ?thesis
    by (intro exI [of _ ?issues]) (simp add: refinement_issue_path)
qed

lemma has_at_sign_examples:
  "\<not> has_at_sign (js '' '')" "has_at_sign (js ''ada@example.org'')"
  by (simp_all add: has_at_sign_def js_def)

theorem clientSchema_cross_field_issue_witness:
  "clientSchema has_at_sign (walkin\<lparr>first_name := Some []\<rparr>)
     = Inl [Issue [''email''] ''Invalid email'', refinement_issue]
   \<and> clientSchema has_at_sign (walkin\<lparr>client_type := Trust, email := Some (js ''ada@example.org'')\<rparr>)
     = Inl [refinement_issue]
   \<and> clientSchema has_at_sign (walkin\<lparr>email := Some (js ''ada@example.org'')\<rparr>)
     = Inr (walkin\<lparr>email := Some (js ''ada@example.org'')\<rparr>)"
proof -
  let ?a = "walkin\<lparr>first_name := Some []\<rparr>"
  let ?b = "walkin\<lparr>client_type := Trust, email := Some (js ''ada@example.org'')\<rparr>"
  have h1: "client_type ?a = Individual
             \<and> (first_name ?a \<in> {None, Some []} \<or> last_name ?a \<in> {None, Some []})
           \<or> client_type ?a \<noteq> Individual \<and> entity_name ?a \<in> {None, Some []}"
    by (simp add: walkin_def)
  have h2: "client_type ?b = Individual
             \<and> (first_name ?b \<in> {None, Some []} \<or> last_name ?b \<in> {None, Some []})
           \<or> client_type ?b \<noteq> Individual \<and> entity_name ?b \<in> {None, Some []}"
    by (simp add: walkin_def)
  have e: "zOrEmptyLiteral
       (zOptional (zString [''email''] (zEmail has_at_sign [''email''] ''Invalid email'')))
       (Some (js '' '')) = [Issue [''email''] ''Invalid email'']"
    "zOrEmptyLiteral
       (zOptional (zString [''email''] (zEmail has_at_sign [''email''] ''Invalid email'')))
       (Some (js ''ada@example.org'')) = []"
    by (simp_all add: zOrEmptyLiteral_def zOptional_def zString_def zEmail_def
        has_at_sign_examples)
  have f: "email ?a = Some (js '' '')" "email ?b = Some (js ''ada@example.org'')"
    by (simp_all add: walkin_def)
  have 1: "clientSchema has_at_sign ?a = Inl [Issue [''email''] ''Invalid email'', refinement_issue]"
    using clientSchema_cross_field_issue [OF h1, of has_at_sign parse_literal]
    by (auto simp: clientSchema_def f e refinement_issue_def split: if_splits)
  have 2: "clientSchema has_at_sign ?b = Inl [refinement_issue]"
    using clientSchema_cross_field_issue [OF h2, of has_at_sign parse_literal]
    by (auto simp: clientSchema_def f e refinement_issue_def split: if_splits)
  have 3: "clientSchema has_at_sign (walkin\<lparr>email := Some (js ''ada@example.org'')\<rparr>)
     = Inr (walkin\<lparr>email := Some (js ''ada@example.org'')\<rparr>)"
    by (simp add: clientSchema_def e clientSchema_refinement_def truthyStr_def walkin_def)
  from 1 2 3 show ?thesis by simp
qed


section \<open>Properties of the user form\<close>

lemma shared_issue_paths:
  "i \<in> set (userFormSchema_email is_email v @ userFormSchema_names v) \<Longrightarrow>
     path i \<noteq> [''password'']"
  by (auto simp: userFormSchema_email_def userFormSchema_names_def zString_def zEmail_def
      zMin_def zMax_def split: option.splits if_splits)

lemma passwordString_ok:
  "passwordString v = [] \<longleftrightarrow> (\<exists>p. v = Some p \<and> 8 \<le> length p \<and> length p \<le> 100)"
  by (auto simp: passwordString_def zString_def zMin_def zMax_def split: option.splits)

lemma passwordString_paths: "i \<in> set (passwordString v) \<Longrightarrow> path i = [''password'']"
  by (auto simp: passwordString_def zString_def zMin_def zMax_def split: option.splits if_splits)

lemma passwordString_short:
  "length p < 8 \<Longrightarrow>
   passwordString (Some p) = [Issue [''password''] ''Password must be at least 8 characters'']"
  by (simp add: passwordString_def zString_def zMin_def zMax_def)

lemma edit_password_blank:
  "zOrEmptyLiteral (zOptional passwordString) (Some []) = []"
  "zOrEmptyLiteral (zOptional passwordString) None = []"
  by (simp_all add: zOrEmptyLiteral_def zOptional_def)

lemma edit_password_typed:
  "p \<noteq> [] \<Longrightarrow> zOrEmptyLiteral (zOptional passwordString) (Some p) = passwordString (Some p)"
  by (simp add: zOrEmptyLiteral_def zOptional_def)

lemma create_valid:
  assumes "UserForm_schema Create is_email v = Inr out"
  shows "\<exists>p. password v = Some p \<and> 8 \<le> length p \<and> length p \<le> 100"
proof -
  have "userFormSchema_email is_email v @ userFormSchema_names v @ passwordString (password v) = []"
    using assms by (simp add: UserForm_schema_def createUserSchema_def Let_def split: if_splits)
  then have "passwordString (password v) = []" by simp
  then show ?thesis by (simp add: passwordString_ok)
qed

lemma create_invalid:
  assumes "password v = None \<or> (\<exists>p. password v = Some p \<and> length p < 8)"
  shows "\<exists>issues. UserForm_schema Create is_email v = Inl issues
           \<and> (\<exists>i \<in> set issues. path i = [''password''])"
proof -
  have "passwordString (password v) \<noteq> []"
    using assms by (auto simp: passwordString_ok)
  then obtain i where i: "i \<in> set (passwordString (password v))"
    by (cases "passwordString (password v)") auto
  then have "path i = [''password'']" by (rule passwordString_paths)
  with i show ?thesis
    by (auto simp: UserForm_schema_def createUserSchema_def Let_def)
qed

lemma edit_blank_no_password_issue:
  assumes "password v = Some []" and "UserForm_schema Edit is_email v = Inl issues"
    and "i \<in> set issues"
  shows "path i \<noteq> [''password'']"
proof -
  have "issues = userFormSchema_email is_email v @ userFormSchema_names v"
    using assms(1,2)
    by (simp add: UserForm_schema_def editUserSchema_def Let_def edit_password_blank
        split: if_splits)
  with assms(3) show ?thesis using shared_issue_paths by blast
qed

lemma UserFormValues_object_password:
  "read_prop (UserFormValues_object v) ''password'' = optString (password v)"
  by (simp add: read_prop_def UserFormValues_object_def)

lemma UserFormValues_object_tenant_id:
  "read_prop (UserFormValues_object v) ''tenant_id'' = optString (tenant_id v)"
  by (simp add: read_prop_def UserFormValues_object_def)

lemma userFormSchema_output_password:
  "password (userFormSchema_output v) = password v"
  by (simp add: userFormSchema_output_def)

lemma handleSubmit_password:
  "UserForm_handleSubmit sel cur obj ''password'' =
     Some (if truthy (read_prop obj ''password'') then read_prop obj ''password''
           else JUndefined)"
  by (simp add: UserForm_handleSubmit_def)

lemma handleSubmit_password_key: "''password'' \<in> dom (UserForm_handleSubmit sel cur obj)"
  by (simp add: handleSubmit_password domIff)

lemma edit_blank_payload:
  assumes "password v = Some []"
    and "UserForm_submit Edit is_email sel cur v = Inr payload"
  shows "payload ''password'' = Some JUndefined"
proof -
  from assms(2) obtain vals where
    vals: "UserForm_schema Edit is_email v = Inr vals"
    and p: "payload = UserForm_handleSubmit sel cur (UserFormValues_object vals)"
    by (auto simp: UserForm_submit_def split: sum.splits)
  from vals have "vals = userFormSchema_output v"
    by (simp add: UserForm_schema_def editUserSchema_def Let_def split: if_splits)
  then have "password vals = Some []"
    using assms(1) by (simp add: userFormSchema_output_password)
  then have "read_prop (UserFormValues_object vals) ''password'' = JStr []"
    by (simp add: UserFormValues_object_password optString_def)
  then show ?thesis
    unfolding p by (simp add: handleSubmit_password)
qed

lemma edit_blank_passes:
  assumes "password v = Some []"
    and "userFormSchema_email is_email v = []" and "userFormSchema_names v = []"
  shows "\<exists>payload. UserForm_submit Edit is_email sel cur v = Inr payload"
  using assms
  by (simp add: UserForm_submit_def UserForm_schema_def editUserSchema_def Let_def
      edit_password_blank)

lemma edit_short_fails:
  assumes "password v = Some p" and "p \<noteq> []" and "length p < 8"
  shows "\<exists>issues. UserForm_schema Edit is_email v = Inl issues
     \<and> Issue [''password''] ''Password must be at least 8 characters'' \<in> set issues"
  using assms
  by (simp add: UserForm_schema_def editUserSchema_def Let_def edit_password_typed
      passwordString_short)

text \<open>
  Claim C4, as amended. In create mode a form that passes validation has a password of
  at least 8 (and at most 100) code units, and a form without a password or with a
  shorter one fails with an issue on the password. In edit mode a blank password raises
  no issue on the password and the form passes when its other fields do; the payload
  handed on then keeps the key \<^verbatim>\<open>password\<close>, holding \<^verbatim>\<open>undefined\<close> in place of a
  string. A password that is typed and shorter than 8 fails in edit mode too. The
  handler sets the key \<^verbatim>\<open>password\<close> on every payload, and to \<^verbatim>\<open>undefined\<close> whenever
  the password of the values is not truthy.
\<close>

theorem UserForm_password_rules:
  "(UserForm_schema Create is_email v = Inr out \<longrightarrow>
      (\<exists>p. password v = Some p \<and> 8 \<le> length p \<and> length p \<le> 100))
   \<and> (password v = None \<or> (\<exists>p. password v = Some p \<and> length p < 8) \<longrightarrow>
      (\<exists>issues. UserForm_schema Create is_email v = Inl issues
         \<and> (\<exists>i \<in> set issues. path i = [''password''])))
   \<and> (password v = Some [] \<longrightarrow>
        (\<forall>issues. UserForm_schema Edit is_email v = Inl issues \<longrightarrow>
           (\<forall>i \<in> set issues. path i \<noteq> [''password'']))
        \<and> (userFormSchema_email is_email v = [] \<and> userFormSchema_names v = [] \<longrightarrow>
             (\<exists>payload. UserForm_submit Edit is_email sel cur v = Inr payload))
        \<and> (\<forall>payload. UserForm_submit Edit is_email sel cur v = Inr payload \<longrightarrow>
             payload ''password'' = Some JUndefined))
   \<and> (password v = Some p \<and> p \<noteq> [] \<and> length p < 8 \<longrightarrow>
        (\<exists>issues. UserForm_schema Edit is_email v = Inl issues
           \<and> Issue [''password''] ''Password must be at least 8 characters'' \<in> set issues))
   \<and> ''password'' \<in> dom (UserForm_handleSubmit sel cur obj)
   \<and> (\<not> truthy (read_prop obj ''password'') \<longrightarrow>
        UserForm_handleSubmit sel cur obj ''password'' = Some JUndefined)"
proof -
  have c1: "UserForm_schema Create is_email v = Inr out \<longrightarrow>
      (\<exists>p. password v = Some p \<and> 8 \<le> length p \<and> length p \<le> 100)"
    by (rule impI) (rule create_valid)
  have c2: "password v = None \<or> (\<exists>p. password v = Some p \<and> length p < 8) \<longrightarrow>
      (\<exists>issues. UserForm_schema Create is_email v = Inl issues
         \<and> (\<exists>i \<in> set issues. path i = [''password'']))"
    by (rule impI) (rule create_invalid)
  have e1: "\<forall>issues. UserForm_schema Edit is_email v = Inl issues \<longrightarrow>
           (\<forall>i \<in> set issues. path i \<noteq> [''password''])" if "password v = Some []"
    by (intro allI impI ballI) (rule edit_blank_no_password_issue [OF that])
  have e2: "userFormSchema_email is_email v = [] \<and> userFormSchema_names v = [] \<longrightarrow>
             (\<exists>payload. UserForm_submit Edit is_email sel cur v = Inr payload)"
    if "password v = Some []"
    by (rule impI, elim conjE) (rule edit_blank_passes [OF that])
  have e3: "\<forall>payload. UserForm_submit Edit is_email sel cur v = Inr payload \<longrightarrow>
             payload ''password'' = Some JUndefined" if "password v = Some []"
    by (intro allI impI) (rule edit_blank_payload [OF that])
  have e4: "password v = Some p \<and> p \<noteq> [] \<and> length p < 8 \<longrightarrow>
        (\<exists>issues. UserForm_schema Edit is_email v = Inl issues
           \<and> Issue [''password''] ''Password must be at least 8 characters'' \<in> set issues)"
    by (rule impI, elim conjE) (rule edit_short_fails)
  have e: "password v = Some [] \<longrightarrow>
        (\<forall>issues. UserForm_schema Edit is_email v = Inl issues \<longrightarrow>
           (\<forall>i \<in> set issues. path i \<noteq> [''password'']))
        \<and> (userFormSchema_email is_email v = [] \<and> userFormSchema_names v = [] \<longrightarrow>
             (\<exists>payload. UserForm_submit Edit is_email sel cur v = Inr payload))
        \<and> (\<forall>payload. UserForm_submit Edit is_email sel cur v = Inr payload \<longrightarrow>
             payload ''password'' = Some JUndefined)"
  proof (rule impI)
    assume h: "password v = Some []"
    show "(\<forall>issues. UserForm_schema Edit is_email v = Inl issues \<longrightarrow>
           (\<forall>i \<in> set issues. path i \<noteq> [''password'']))
        \<and> (userFormSchema_email is_email v = [] \<and> userFormSchema_names v = [] \<longrightarrow>
             (\<exists>payload. UserForm_submit Edit is_email sel cur v = Inr payload))
        \<and> (\<forall>payload. UserForm_submit Edit is_email sel cur v = Inr payload \<longrightarrow>
             payload ''password'' = Some JUndefined)"
      by (intro conjI) (rule e1 [OF h], rule e2 [OF h], rule e3 [OF h])
  qed
  have k: "\<not> truthy (read_prop obj ''password'') \<longrightarrow>
        UserForm_handleSubmit sel cur obj ''password'' = Some JUndefined"
    by (simp add: handleSubmit_password)
  show ?thesis
    by (intro conjI) (rule c1, rule c2, rule e, rule e4, rule handleSubmit_password_key, rule k)
qed

lemma newUser_shared_ok:
  "userFormSchema_email has_at_sign newUser = []" "userFormSchema_names newUser = []"
  by (simp_all add: userFormSchema_email_def userFormSchema_names_def zString_def zEmail_def
      zMin_def zMax_def newUser_def has_at_sign_def js_def)

text \<open>Claim C4 as stated fails in its payload part: the user form with a blank password
  passes validation in edit mode, and the payload handed on has the key
  \<^verbatim>\<open>password\<close>, holding \<^verbatim>\<open>undefined\<close>; the key is not left out.\<close>

theorem blank_password_key_stays_in_payload:
  "password newUser = Some []
   \<and> \<not> isl (UserForm_submit Edit has_at_sign False (Some (js ''t1'')) newUser)
   \<and> ''password'' \<in> dom (projr (UserForm_submit Edit has_at_sign False (Some (js ''t1'')) newUser))
   \<and> projr (UserForm_submit Edit has_at_sign False (Some (js ''t1'')) newUser) ''password''
       = Some JUndefined"
proof -
  have "UserForm_submit Edit has_at_sign False (Some (js ''t1'')) newUser
      = Inr (UserForm_handleSubmit False (Some (js ''t1''))
               (UserFormValues_object (userFormSchema_output newUser)))"
    using newUser_shared_ok
    by (simp add: UserForm_submit_def UserForm_schema_def editUserSchema_def
        edit_password_blank newUser_def)
  moreover have "read_prop (UserFormValues_object (userFormSchema_output newUser)) ''password''
      = JStr []"
    by (simp add: UserFormValues_object_password userFormSchema_output_password optString_def
        newUser_def)
  ultimately show ?thesis
    by (simp add: handleSubmit_password domIff newUser_def)
qed

theorem UserForm_password_rules_witness:
  "\<not> isl (UserForm_submit Edit has_at_sign False (Some (js ''t1'')) newUser)
   \<and> projr (UserForm_submit Edit has_at_sign False (Some (js ''t1'')) newUser) ''password''
       = Some JUndefined
   \<and> UserForm_schema Create has_at_sign newUser
     = Inl [Issue [''password''] ''Password must be at least 8 characters'']
   \<and> UserForm_schema Edit has_at_sign (newUser\<lparr>password := Some (js ''abcd'')\<rparr>)
     = Inl [Issue [''password''] ''Password must be at least 8 characters'']
   \<and> UserForm_schema Create has_at_sign (newUser\<lparr>password := Some (js ''abcd'')\<rparr>)
     = Inl [Issue [''password''] ''Password must be at least 8 characters'']
   \<and> UserForm_schema Create has_at_sign (newUser\<lparr>password := Some (js ''correct horse'')\<rparr>)
     = Inr (newUser\<lparr>password := Some (js ''correct horse'')\<rparr>)
   \<and> UserForm_handleSubmit False (Some (js ''t1''))
        (UserFormValues_object (newUser\<lparr>password := Some (js ''correct horse'')\<rparr>)) ''password''
     = Some (JStr (js ''correct horse''))"
proof -
  let ?short = "newUser\<lparr>password := Some (js ''abcd'')\<rparr>"
  have b: "password newUser = Some []" by (simp add: newUser_def)
  have s: "password ?short = Some (js ''abcd'') \<and> js ''abcd'' \<noteq> [] \<and> length (js ''abcd'') < 8"
    by (simp add: js_def)
  have sh: "userFormSchema_email has_at_sign ?short = []" "userFormSchema_names ?short = []"
    using newUser_shared_ok by (simp_all add: userFormSchema_email_def userFormSchema_names_def)
  note t = UserForm_password_rules
    [where v = newUser and is_email = has_at_sign and sel = False and cur = "Some (js ''t1'')"]
  note u = UserForm_password_rules
    [where v = ?short and is_email = has_at_sign and p = "js ''abcd''"]
  have "\<exists>payload. UserForm_submit Edit has_at_sign False (Some (js ''t1'')) newUser = Inr payload
      \<and> payload ''password'' = Some JUndefined"
    using t b newUser_shared_ok by blast
  then have 1: "\<not> isl (UserForm_submit Edit has_at_sign False (Some (js ''t1'')) newUser)
   \<and> projr (UserForm_submit Edit has_at_sign False (Some (js ''t1'')) newUser) ''password''
       = Some JUndefined"
    by auto
  have 2: "UserForm_schema Create has_at_sign newUser
     = Inl [Issue [''password''] ''Password must be at least 8 characters'']"
    using t b newUser_shared_ok
    by (simp add: UserForm_schema_def createUserSchema_def passwordString_short)
  have 3: "UserForm_schema Edit has_at_sign ?short
     = Inl [Issue [''password''] ''Password must be at least 8 characters'']"
    using u s sh
    by (simp add: UserForm_schema_def editUserSchema_def edit_password_typed
        passwordString_short)
  have 4: "UserForm_schema Create has_at_sign ?short
     = Inl [Issue [''password''] ''Password must be at least 8 characters'']"
    using u s sh
    by (simp add: UserForm_schema_def createUserSchema_def passwordString_short)
  have 5: "UserForm_schema Create has_at_sign (newUser\<lparr>password := Some (js ''correct horse'')\<rparr>)
     = Inr (newUser\<lparr>password := Some (js ''correct horse'')\<rparr>)"
    using newUser_shared_ok
    by (simp add: UserForm_schema_def createUserSchema_def userFormSchema_email_def
        userFormSchema_names_def passwordString_def zString_def zMin_def zMax_def
        userFormSchema_output_def newUser_def js_def)
  have 6: "UserForm_handleSubmit False (Some (js ''t1''))
        (UserFormValues_object (newUser\<lparr>password := Some (js ''correct horse'')\<rparr>)) ''password''
     = Some (JStr (js ''correct horse''))"
    by (simp add: handleSubmit_password UserFormValues_object_password optString_def)
  from 1 2 3 4 5 6 show ?thesis by simp
qed

end
